theory Spec2Isabelle
  imports Complex_Main "HOL-Library.Sublist"
begin

section \<open>The API client (lib/api.ts)\<close>

subsection \<open>Module state and browser environment\<close>

text \<open>
  The client keeps the session token in the module variable \<open>_token\<close> and, when a
  \<open>window\<close> exists, in \<open>localStorage\<close> under the key \<open>cdss_token\<close>. The two
  environment variables are read once, when the module is loaded.
\<close>

record api_state =
  token_var :: "string option"
  has_window :: bool
  local_storage :: "string \<rightharpoonup> string"
  NEXT_PUBLIC_API_URL :: "string option"
  NEXT_PUBLIC_WS_URL :: "string option"

text \<open>JavaScript truthiness of a \<open>string | null\<close>: \<open>null\<close> and the empty string are falsy.\<close>

fun truthy :: "string option \<Rightarrow> bool" where
  "truthy None = False"
| "truthy (Some t) = (t \<noteq> [])"

definition BASE_URL :: "api_state \<Rightarrow> string" where
  "BASE_URL s = (case NEXT_PUBLIC_API_URL s of
                   Some u \<Rightarrow> u
                 | None \<Rightarrow> ''http://localhost:8000/api/v1'')"

subsection \<open>Token storage\<close>

definition setToken :: "string option \<Rightarrow> api_state \<Rightarrow> api_state" where
  "setToken token s =
     (let s1 = s\<lparr>token_var := token\<rparr> in
      if has_window s1 then
        (case token of
           Some t \<Rightarrow>
             (if t \<noteq> [] then s1\<lparr>local_storage := (local_storage s1)(''cdss_token'' \<mapsto> t)\<rparr>
              else s1\<lparr>local_storage := (local_storage s1)(''cdss_token'' := None)\<rparr>)
         | None \<Rightarrow> s1\<lparr>local_storage := (local_storage s1)(''cdss_token'' := None)\<rparr>)
      else s1)"

definition getToken :: "api_state \<Rightarrow> string option \<times> api_state" where
  "getToken s =
     (if truthy (token_var s) then (token_var s, s)
      else
        (let s1 = (if has_window s
                   then s\<lparr>token_var := local_storage s ''cdss_token''\<rparr>
                   else s)
         in (token_var s1, s1)))"

definition clearToken :: "api_state \<Rightarrow> api_state" where
  "clearToken s = setToken None s"

text \<open>
  A page reload runs the module again: \<open>let _token = null\<close>. Local storage and the
  environment stay as they are.
\<close>

definition reload :: "api_state \<Rightarrow> api_state" where
  "reload s = s\<lparr>token_var := None\<rparr>"

subsection \<open>HTTP helpers\<close>

datatype js_error = Error string | TypeError string | SyntaxError string


datatype AdviceType =
  urgent_referral | observe_2h | manage_locally | start_iv_fluids | admit | custom

record SpecialistAdviceRequest =
  adv_case_id :: string
  advice_type :: AdviceType
  custom_notes :: "string option"
  medications_advised :: "string list"
  investigations :: "string list"
  follow_up_hours :: "int option"

text \<open>
  The body handed to \<open>JSON.stringify\<close>, kept structured: \<open>'p\<close> is the intake
  payload, declared further down.
\<close>

datatype 'p request_body =
  NoBody
| AdviceBody SpecialistAdviceRequest
| EscalateBody string string "string option"
| IntakeBody 'p

record 'p http_request =
  url :: string
  http_method :: "string option"
  headers :: "string \<rightharpoonup> string"
  body :: "'p request_body"

text \<open>
  A parsed response body, seen through the three ways the client reads it: its
  \<open>detail\<close> field, its \<open>error\<close> field, and the value itself cast to the expected
  payload type.
\<close>

record 'a json_doc =
  detail :: "string option"
  error_field :: "string option"
  payload :: 'a

record 'a http_response =
  response_status :: nat
  json :: "'a json_doc option"

datatype 'a fetch_outcome = Rejected js_error | Responded "'a http_response"

definition ok :: "'a http_response \<Rightarrow> bool" where
  "ok r = (200 \<le> response_status r \<and> response_status r \<le> 299)"

fun digit_char :: "nat \<Rightarrow> char" where
  "digit_char n = char_of (48 + n)"

fun string_of_nat :: "nat \<Rightarrow> string" where
  "string_of_nat n =
     (if n < 10 then [digit_char n]
      else string_of_nat (n div 10) @ [digit_char (n mod 10)])"

declare string_of_nat.simps [simp del]

record 'p RequestInit =
  init_method :: "string option"
  init_headers :: "string \<rightharpoonup> string"
  init_body :: "'p request_body"

text \<open>
  \<open>request\<close> builds the headers, attaches the bearer token when \<open>auth\<close> is set and a
  token is there, sends the request and turns a non-2xx answer into a thrown
  \<open>Error\<close>. The result is the outcome (thrown error or payload, \<open>None\<close> for 204), the
  request that was sent, and the module state after \<open>getToken\<close>.
\<close>

definition request ::
  "('p http_request \<Rightarrow> 'a fetch_outcome) \<Rightarrow> string \<Rightarrow> 'p RequestInit \<Rightarrow> bool \<Rightarrow> api_state
     \<Rightarrow> (js_error + 'a option) \<times> 'p http_request \<times> api_state" where
  "request fetch path options auth s =
     (let headers0 = [''Content-Type'' \<mapsto> ''application/json''] ++ init_headers options;
          (headers1, s1) =
             (if auth then
                (case getToken s of
                   (Some token, s') \<Rightarrow>
                     (if token \<noteq> []
                      then (headers0(''Authorization'' \<mapsto> ''Bearer '' @ token), s')
                      else (headers0, s'))
                 | (None, s') \<Rightarrow> (headers0, s'))
              else (headers0, s));
          req = \<lparr>url = BASE_URL s @ path, http_method = init_method options,
                 headers = headers1, body = init_body options\<rparr>
      in (case fetch req of
            Rejected e \<Rightarrow> (Inl e, req, s1)
          | Responded response \<Rightarrow>
              if \<not> ok response then
                (let errorMsg0 = ''HTTP '' @ string_of_nat (response_status response);
                     errorMsg =
                       (case json response of
                          None \<Rightarrow> errorMsg0
                        | Some err \<Rightarrow>
                            (case detail err of
                               Some d \<Rightarrow> d
                             | None \<Rightarrow> (case error_field err of Some e \<Rightarrow> e | None \<Rightarrow> errorMsg0)))
                 in (Inl (Error errorMsg), req, s1))
              else if response_status response = 204 then (Inr None, req, s1)
              else (case json response of
                      None \<Rightarrow> (Inl (SyntaxError ''Unexpected token''), req, s1)
                    | Some doc \<Rightarrow> (Inr (Some (payload doc)), req, s1))))"


subsection \<open>Payload types (types/index.ts)\<close>

datatype RiskLevel = low | moderate | high | critical

datatype SexEnum = male | female | other

datatype user_role = phw | specialist

datatype Severity = mild | moderate_severity | severe | contraindicated

datatype WarningType = ddi | drug_condition | drug_symptom




record VitalsInput =
  systolic_bp :: int
  diastolic_bp :: int
  heart_rate :: int
  respiratory_rate :: int
  spo2 :: rat
  temperature :: rat
  blood_glucose_mgdl :: "int option"
  weight_kg :: "rat option"
  gcs_score :: "int option"

record VulnerabilityFlags =
  pregnant :: bool
  diabetic :: bool
  elderly :: bool
  heart_disease :: bool
  immunocompromised :: bool

record MedicationInput =
  rxnorm_code :: "string option"
  drug_name :: string
  dose :: "string option"
  frequency :: "string option"
  route :: "string option"

record SymptomInput =
  symptom_name :: string
  is_red_flag :: bool
  symptom_severity :: "Severity option"
  duration_hours :: "int option"

record PatientIntakeRequest =
  patient_name :: string
  age :: int
  sex :: SexEnum
  village :: "string option"
  district :: "string option"
  vulnerability_flags :: VulnerabilityFlags
  vitals :: VitalsInput
  medications :: "MedicationInput list"
  symptoms :: "SymptomInput list"
  chief_complaint :: string

datatype js_value = JNum rat | JBool bool | JStr string

record SHAPFeature =
  feature :: string
  feature_value :: js_value
  shap_value :: rat
  label :: string

record MedWarning =
  drug1 :: string
  drug2 :: "string option"
  warning_type :: WarningType
  severity :: Severity
  warning_message :: string
  action_required :: bool
  override_triggered :: bool

record RuleEngineResult =
  triggered :: bool
  rule_risk_level :: "RiskLevel option"
  reasons :: "string list"
  override_ml :: bool

record MLResult =
  risk_probability :: rat
  ml_risk_level :: RiskLevel
  shap_features :: "SHAPFeature list"
  shap_text :: string

record RiskAssessmentResponse =
  assessment_id :: string
  case_id :: string
  final_risk_level :: RiskLevel
  final_risk_score :: rat
  rule_engine :: RuleEngineResult
  ml_result :: "MLResult option"
  med_warnings :: "MedWarning list"
  recommendation :: string
  escalation_suggested :: bool
  assessed_at :: string

record SBAR =
  situation :: string
  background :: string
  assessment :: string
  sbar_recommendation :: string

record EscalationResponse =
  esc_case_id :: string
  specialist_magic_link :: string
  sbar :: SBAR
  escalated_at :: string

text \<open>The client's view of a case; \<open>status\<close> is one of the four strings of the type.\<close>

record Case =
  cid :: string
  case_patient_name :: string
  case_age :: int
  case_sex :: SexEnum
  case_chief_complaint :: string
  case_risk_level :: RiskLevel
  risk_score :: rat
  status_of :: string
  created_at :: string
  case_escalated_at :: "string option"
  phw_name_of :: "string option"

definition Case_status :: "string list" where
  "Case_status = [''active'', ''escalated'', ''advised'', ''closed'']"

record PatientSummary =
  summary_age :: int
  summary_sex :: SexEnum
  summary_flags :: VulnerabilityFlags

record SpecialistPortalData =
  portal_case_id :: string
  patient_summary :: PatientSummary
  portal_vitals :: VitalsInput
  portal_symptoms :: "SymptomInput list"
  portal_medications :: "MedicationInput list"
  risk_assessment :: RiskAssessmentResponse
  portal_sbar :: SBAR
  phw_name :: string
  facility :: string
  portal_escalated_at :: string

datatype WSType = STATUS_UPDATE | ADVICE_PUSH | PING

record WSMessage =
  ws_type :: WSType
  ws_case_id :: "string option"
  ws_status :: "string option"
  ws_advice :: "SpecialistAdviceRequest option"
  ws_timestamp :: "string option"

record AdviceAck =
  ack_status :: string
  ack_case_id :: string

subsection \<open>Endpoints\<close>

type_synonym 'a fetch = "PatientIntakeRequest http_request \<Rightarrow> 'a fetch_outcome"

type_synonym 'a api_result = "(js_error + 'a option) \<times> PatientIntakeRequest http_request \<times> api_state"

definition get :: "'a fetch \<Rightarrow> string \<Rightarrow> bool \<Rightarrow> api_state \<Rightarrow> 'a api_result" where
  "get fetch path auth s =
     request fetch path
       \<lparr>init_method = Some ''GET'', init_headers = Map.empty, init_body = NoBody\<rparr> auth s"

definition post ::
  "'a fetch \<Rightarrow> string \<Rightarrow> PatientIntakeRequest request_body \<Rightarrow> bool \<Rightarrow> api_state \<Rightarrow> 'a api_result" where
  "post fetch path b auth s =
     request fetch path
       \<lparr>init_method = Some ''POST'', init_headers = Map.empty, init_body = b\<rparr> auth s"



definition logout :: "api_state \<Rightarrow> api_state" where
  "logout s = clearToken s"

definition getCases :: "Case list fetch \<Rightarrow> api_state \<Rightarrow> Case list api_result" where
  "getCases fetch s = get fetch ''/cases'' True s"

definition getCase :: "Case fetch \<Rightarrow> string \<Rightarrow> api_state \<Rightarrow> Case api_result" where
  "getCase fetch caseId s = get fetch (''/cases/'' @ caseId) True s"

definition analyzeRisk ::
  "RiskAssessmentResponse fetch \<Rightarrow> PatientIntakeRequest \<Rightarrow> api_state
     \<Rightarrow> RiskAssessmentResponse api_result" where
  "analyzeRisk fetch p s = post fetch ''/analyze/risk'' (IntakeBody p) True s"

definition escalateCase ::
  "EscalationResponse fetch \<Rightarrow> string \<Rightarrow> string \<Rightarrow> string option \<Rightarrow> api_state
     \<Rightarrow> EscalationResponse api_result" where
  "escalateCase fetch caseId reason specialistId s =
     post fetch ''/escalate'' (EscalateBody caseId reason specialistId) True s"

definition getSpecialistPortal ::
  "SpecialistPortalData fetch \<Rightarrow> string \<Rightarrow> api_state \<Rightarrow> SpecialistPortalData api_result" where
  "getSpecialistPortal fetch token s = get fetch (''/specialist/portal/'' @ token) False s"

definition submitAdvice ::
  "AdviceAck fetch \<Rightarrow> SpecialistAdviceRequest \<Rightarrow> api_state \<Rightarrow> AdviceAck api_result" where
  "submitAdvice fetch advice s = post fetch ''/specialist/advice'' (AdviceBody advice) False s"


text \<open>
  The strings a request carries besides its method: the URL, the \<open>Authorization\<close>
  header, and the text fields of the body. A request \<open>carries\<close> a token that occurs
  in one of them.
\<close>

fun body_strings :: "PatientIntakeRequest request_body \<Rightarrow> string list" where
  "body_strings NoBody = []"
| "body_strings (AdviceBody a) =
     adv_case_id a # (case custom_notes a of Some n \<Rightarrow> [n] | None \<Rightarrow> [])
       @ medications_advised a @ investigations a"
| "body_strings (EscalateBody caseId reason specialistId) =
     caseId # reason # (case specialistId of Some i \<Rightarrow> [i] | None \<Rightarrow> [])"
| "body_strings (IntakeBody p) =
     patient_name p # chief_complaint p
       # (case village p of Some v \<Rightarrow> [v] | None \<Rightarrow> [])
       @ (case district p of Some d \<Rightarrow> [d] | None \<Rightarrow> [])
       @ map drug_name (medications p) @ map symptom_name (symptoms p)"

definition carries :: "string \<Rightarrow> PatientIntakeRequest http_request \<Rightarrow> bool" where
  "carries token req =
     list_ex (sublist token)
       (url req # (case headers req ''Authorization'' of Some h \<Rightarrow> [h] | None \<Rightarrow> [])
          @ body_strings (body req))"

subsection \<open>The live-event connection\<close>

text \<open>
  A computation over a world \<open>'w\<close> either throws or returns; \<open>try_catch\<close> is the
  \<open>try { ... } catch { ... }\<close> of the source.
\<close>

type_synonym ('r, 'w) js = "'w \<Rightarrow> (js_error + 'r) \<times> 'w"

definition try_catch :: "('r, 'w) js \<Rightarrow> (js_error \<Rightarrow> ('r, 'w) js) \<Rightarrow> ('r, 'w) js" where
  "try_catch block handler w =
     (case block w of
        (Inl e, w') \<Rightarrow> handler e w'
      | (Inr r, w') \<Rightarrow> (Inr r, w'))"

text \<open>
  The world of the message handler: the calls made to the subscriber's callback, the
  console, and the subscriber's own state, which the callback may change and in which it
  may throw.
\<close>

record ('m, 'u) ws_world =
  calls :: "'m list"
  console :: "(string \<times> string) list"
  subscriber :: 'u

definition invoke :: "('m \<Rightarrow> (unit, 'u) js) \<Rightarrow> 'm \<Rightarrow> (unit, ('m, 'u) ws_world) js" where
  "invoke onMessage msg w =
     (case onMessage msg (subscriber w) of
        (r, u') \<Rightarrow> (r, w\<lparr>calls := calls w @ [msg], subscriber := u'\<rparr>))"

definition console_warn :: "string \<Rightarrow> string \<Rightarrow> (unit, ('m, 'u) ws_world) js" where
  "console_warn text arg w = (Inr (), w\<lparr>console := console w @ [(text, arg)]\<rparr>)"

text \<open>
  \<open>ws.onmessage\<close> as \<open>createCaseWebSocket\<close> installs it. \<open>JSON_parse\<close> is the
  platform's parser: \<open>None\<close> where it throws a \<open>SyntaxError\<close>.
\<close>

definition onmessage ::
  "(string \<Rightarrow> 'm option) \<Rightarrow> ('m \<Rightarrow> (unit, 'u) js) \<Rightarrow> string \<Rightarrow> (unit, ('m, 'u) ws_world) js" where
  "onmessage JSON_parse onMessage event_data =
     try_catch
       (\<lambda>w. case JSON_parse event_data of
               None \<Rightarrow> (Inl (SyntaxError ''Unexpected token''), w)
             | Some msg \<Rightarrow> invoke onMessage msg w)
       (\<lambda>e. console_warn ''WS parse error'' event_data)"

definition WS_BASE :: "api_state \<Rightarrow> string" where
  "WS_BASE s = (case NEXT_PUBLIC_WS_URL s of Some u \<Rightarrow> u | None \<Rightarrow> ''ws://localhost:8000'')"

definition createCaseWebSocket_url :: "string \<Rightarrow> api_state \<Rightarrow> string \<times> api_state" where
  "createCaseWebSocket_url caseId s =
     (case getToken s of
        (token, s') \<Rightarrow>
          (WS_BASE s @ ''/ws/case/'' @ caseId @
             (case token of
                Some t \<Rightarrow> (if t \<noteq> [] then ''?token='' @ t else [])
              | None \<Rightarrow> []),
           s'))"

section \<open>The pages\<close>

subsection \<open>LoginPage\<close>






subsection \<open>DashboardPage\<close>

text \<open>
  The dashboard lists \<open>MOCK_CASES\<close>. \<open>now\<close> is \<open>Date.now()\<close> in milliseconds and
  \<open>toISOString\<close> the platform's date formatting.
\<close>

definition MOCK_CASES :: "(int \<Rightarrow> string) \<Rightarrow> int \<Rightarrow> Case list" where
  "MOCK_CASES toISOString now =
     [\<lparr>cid = ''case-001'', case_patient_name = ''Meena Devi'', case_age = 32, case_sex = female,
       case_chief_complaint = ''Severe headache and visual disturbance at 34 weeks pregnancy'',
       case_risk_level = critical, risk_score = 91 / 100, status_of = ''escalated'',
       created_at = toISOString (now - 15 * 60000), case_escalated_at = None,
       phw_name_of = Some ''Priya Sharma''\<rparr>,
      \<lparr>cid = ''case-002'', case_patient_name = ''Raju Patel'', case_age = 58, case_sex = male,
       case_chief_complaint = ''Chest pain radiating to jaw, sweating'',
       case_risk_level = high, risk_score = 78 / 100, status_of = ''active'',
       created_at = toISOString (now - 45 * 60000), case_escalated_at = None,
       phw_name_of = Some ''Suresh Kumar''\<rparr>,
      \<lparr>cid = ''case-003'', case_patient_name = ''Lata Verma'', case_age = 44, case_sex = female,
       case_chief_complaint = ''Persistent cough, low-grade fever for 3 weeks'',
       case_risk_level = moderate, risk_score = 52 / 100, status_of = ''advised'',
       created_at = toISOString (now - 2 * 3600000), case_escalated_at = None,
       phw_name_of = Some ''Anita Singh''\<rparr>,
      \<lparr>cid = ''case-004'', case_patient_name = ''Dhruv Shah'', case_age = 28, case_sex = male,
       case_chief_complaint = ''Mild fever, body ache for 2 days'',
       case_risk_level = low, risk_score = 18 / 100, status_of = ''closed'',
       created_at = toISOString (now - 5 * 3600000), case_escalated_at = None,
       phw_name_of = Some ''Priya Sharma''\<rparr>]"


subsection \<open>SpecialistPortalPage\<close>

text \<open>The two non-ASCII signs of the demo texts, as their UTF-8 bytes.\<close>

definition warning_sign :: string where
  "warning_sign = [CHR 0xE2, CHR 0x9A, CHR 0xA0, CHR 0xEF, CHR 0xB8, CHR 0x8F]"

definition em_dash :: string where
  "em_dash = [CHR 0xE2, CHR 0x80, CHR 0x94]"

record PortalPage =
  data :: "SpecialistPortalData option"
  portal_loading :: bool
  portal_error :: "string option"
  submitted :: bool
  adviceType :: "AdviceType option"
  customNotes :: string
  selectedMeds :: "string list"
  selectedInvest :: "string list"
  followUpHours :: string
  submitting :: bool
  wsMessages :: "WSMessage list"

text \<open>The state a freshly mounted page starts in (the \<open>useState\<close> initial values).\<close>

definition PortalPage_initial :: PortalPage where
  "PortalPage_initial =
     \<lparr>data = None, portal_loading = True, portal_error = None, submitted = False,
      adviceType = None, customNotes = [], selectedMeds = [], selectedInvest = [],
      followUpHours = [], submitting = False, wsMessages = []\<rparr>"

text \<open>The bundle of the demo fallback; \<open>now_iso\<close> is \<open>new Date().toISOString()\<close>.\<close>

definition demo :: "string \<Rightarrow> SpecialistPortalData" where
  "demo now_iso =
     \<lparr>portal_case_id = ''demo-case-001'',
      patient_summary =
        \<lparr>summary_age = 32, summary_sex = female,
         summary_flags = \<lparr>pregnant = True, diabetic = False, elderly = False,
                          heart_disease = False, immunocompromised = False\<rparr>\<rparr>,
      portal_vitals =
        \<lparr>systolic_bp = 155, diastolic_bp = 100, heart_rate = 98, respiratory_rate = 20,
         spo2 = 97, temperature = 372 / 10, blood_glucose_mgdl = None, weight_kg = None,
         gcs_score = None\<rparr>,
      portal_symptoms =
        [\<lparr>symptom_name = ''Severe headache'', is_red_flag = True,
          symptom_severity = Some severe, duration_hours = Some 6\<rparr>,
         \<lparr>symptom_name = ''Blurred vision'', is_red_flag = True,
          symptom_severity = Some severe, duration_hours = Some 4\<rparr>],
      portal_medications =
        [\<lparr>rxnorm_code = None, drug_name = ''Iron supplement'', dose = Some ''100mg'',
          frequency = None, route = None\<rparr>,
         \<lparr>rxnorm_code = None, drug_name = ''Folic acid'', dose = Some ''5mg'',
          frequency = None, route = None\<rparr>],
      risk_assessment =
        \<lparr>assessment_id = ''assess-demo'', case_id = ''demo-case-001'',
         final_risk_level = critical, final_risk_score = 91 / 100,
         rule_engine =
           \<lparr>triggered = True, rule_risk_level = Some critical,
            reasons = [''Pregnancy hypertension (possible preeclampsia): BP 155/100 mmHg''],
            override_ml = True\<rparr>,
         ml_result = Some
           \<lparr>risk_probability = 84 / 100, ml_risk_level = high,
            shap_features =
              [\<lparr>feature = ''systolic_bp'', feature_value = JNum 155, shap_value = 38 / 100,
                label = ''Elevated BP (155 mmHg) is top risk driver''\<rparr>,
               \<lparr>feature = ''pregnant'', feature_value = JBool True, shap_value = 29 / 100,
                label = ''Pregnancy flag significantly elevates risk''\<rparr>,
               \<lparr>feature = ''headache'', feature_value = JBool True, shap_value = 18 / 100,
                label = ''Severe headache is a red-flag symptom''\<rparr>],
            shap_text = ''Pregnancy + elevated BP + severe headache suggest preeclampsia ''
              @ em_dash @ '' high risk.''\<rparr>,
         med_warnings = [],
         recommendation = warning_sign
           @ '' IMMEDIATE ESCALATION REQUIRED. Signs consistent with preeclampsia. ''
           @ ''Maternal emergency protocol '' @ em_dash
           @ '' ensure IV access, monitor fetal heart rate.'',
         escalation_suggested = True, assessed_at = now_iso\<rparr>,
      portal_sbar =
        \<lparr>situation = ''32-year-old pregnant female (34 weeks) presenting with BP 155/100 mmHg, ''
           @ ''severe headache, and blurred vision.'',
         background = ''No prior hypertension. On iron + folic acid. ''
           @ ''Escalated by PHW Priya Sharma, PHC Wardha Rural.'',
         assessment = ''AI classified CRITICAL (score 0.91). Rule engine triggered: ''
           @ ''pregnancy hypertension (possible preeclampsia). ML risk: 84%.'',
         sbar_recommendation = ''Urgent specialist assessment required. ''
           @ ''Consider magnesium sulfate for seizure prophylaxis. ''
           @ ''Antihypertensive therapy indicated.''\<rparr>,
      phw_name = ''Priya Sharma'', facility = ''PHC Wardha Rural'',
      portal_escalated_at = now_iso\<rparr>"

text \<open>
  \<open>loadPortal\<close>, the effect run when the page mounts with its \<open>token\<close>. A 204 answer
  resolves to \<open>undefined\<close>, which \<open>setData\<close> stores as no data.
\<close>

definition loadPortal ::
  "SpecialistPortalData fetch \<Rightarrow> string \<Rightarrow> string \<Rightarrow> PortalPage \<times> api_state
     \<Rightarrow> PortalPage \<times> api_state" where
  "loadPortal fetch now_iso token ps =
     (case ps of (p, s) \<Rightarrow>
        (case getSpecialistPortal fetch token s of
           (Inr portalData, _, s') \<Rightarrow> (p\<lparr>data := portalData, portal_loading := False\<rparr>, s')
         | (Inl _, _, s') \<Rightarrow> (p\<lparr>data := Some (demo now_iso), portal_loading := False\<rparr>, s')))"

text \<open>What the component returns: the loader, the error card, or the case review.\<close>

datatype portal_view =
  LoadingView
| PortalNotFound
| CaseReview SpecialistPortalData bool

definition render :: "PortalPage \<Rightarrow> portal_view" where
  "render p =
     (if portal_loading p then LoadingView
      else if truthy (portal_error p) then PortalNotFound
      else (case data p of
              None \<Rightarrow> PortalNotFound
            | Some d \<Rightarrow> CaseReview d (submitted p)))"

text \<open>
  \<open>handleSubmitAdvice\<close>; \<open>parseInt\<close> is the platform's, \<open>None\<close> for \<open>NaN\<close>. The
  result also carries the request sent, if one was.
\<close>

definition handleSubmitAdvice ::
  "AdviceAck fetch \<Rightarrow> (string \<Rightarrow> int option) \<Rightarrow> PortalPage \<times> api_state
     \<Rightarrow> PortalPage \<times> api_state \<times> PatientIntakeRequest http_request option" where
  "handleSubmitAdvice fetch parseInt ps =
     (case ps of (p, s) \<Rightarrow>
        (case (adviceType p, data p) of
           (Some chosen, Some d) \<Rightarrow>
             (let p1 = p\<lparr>submitting := True\<rparr> in
              case submitAdvice fetch
                     \<lparr>adv_case_id = portal_case_id d, advice_type = chosen,
                      custom_notes = (if customNotes p1 \<noteq> [] then Some (customNotes p1) else None),
                      medications_advised = selectedMeds p1,
                      investigations = selectedInvest p1,
                      follow_up_hours =
                        (if followUpHours p1 \<noteq> [] then parseInt (followUpHours p1) else None)\<rparr>
                     s of
                (Inr _, req, s') \<Rightarrow> (p1\<lparr>submitted := True, submitting := False\<rparr>, s', Some req)
              | (Inl _, req, s') \<Rightarrow> (p1\<lparr>submitted := True, submitting := False\<rparr>, s', Some req))
         | _ \<Rightarrow> (p, s, None)))"


section \<open>The database schema\<close>

text \<open>
  The tables the decision engine writes, with the constraints the schema declares on
  them: enum types, \<open>NOT NULL\<close>, \<open>CHECK\<close>, \<open>UNIQUE\<close>, primary keys, column defaults,
  numeric precision and the \<open>updated_at\<close> trigger. A column holds \<open>None\<close> for
  \<open>NULL\<close>. Foreign keys are not checked here (the referenced tables are not part of
  this model), so this database accepts every statement the real one does.
\<close>

datatype 'a column = DEFAULT | VALUE "'a option"

definition supplied :: "'a option \<Rightarrow> 'a column \<Rightarrow> 'a option" where
  "supplied dflt c = (case c of DEFAULT \<Rightarrow> dflt | VALUE v \<Rightarrow> v)"

datatype db_error =
  not_null_violation string
| invalid_enum_value string
| check_violation string
| unique_violation string
| numeric_overflow string
| value_too_long string

definition case_status :: "string list" where
  "case_status = [''intake'', ''analyzed'', ''escalated'',
                  ''specialist_reviewing'', ''advised'', ''closed'', ''cancelled'']"

definition risk_level :: "string list" where
  "risk_level = [''low'', ''moderate'', ''high'', ''critical'']"

text \<open>A value of an enum column: \<open>NULL\<close> or one of the labels of the type.\<close>

definition enum_ok :: "string list \<Rightarrow> string option \<Rightarrow> bool" where
  "enum_ok labels v = (case v of None \<Rightarrow> True | Some l \<Rightarrow> l \<in> set labels)"

text \<open>A \<open>CHECK (c BETWEEN lo AND hi)\<close> passes on \<open>NULL\<close>.\<close>

definition between :: "'a::linorder option \<Rightarrow> 'a \<Rightarrow> 'a \<Rightarrow> bool" where
  "between v lo hi = (case v of None \<Rightarrow> True | Some x \<Rightarrow> lo \<le> x \<and> x \<le> hi)"

definition smallint_ok :: "int option \<Rightarrow> bool" where
  "smallint_ok v = between v (- 32768) 32767"

text \<open>\<open>NUMERIC(p, k)\<close>: round half away from zero to \<open>k\<close> decimals, at most \<open>p\<close> digits.\<close>

definition round_to :: "nat \<Rightarrow> rat \<Rightarrow> rat" where
  "round_to k x =
     (if 0 \<le> x then of_int \<lfloor>x * 10 ^ k + 1 / 2\<rfloor> / 10 ^ k
      else - (of_int \<lfloor>- x * 10 ^ k + 1 / 2\<rfloor> / 10 ^ k))"

definition numeric :: "nat \<Rightarrow> nat \<Rightarrow> rat option \<Rightarrow> rat option option" where
  "numeric p k v =
     (case v of
        None \<Rightarrow> Some None
      | Some x \<Rightarrow>
          (let r = round_to k x
           in if \<bar>r\<bar> < 10 ^ (p - k) then Some (Some r) else None))"

subsection \<open>Statements\<close>

text \<open>
  The statements on a table. An \<open>UPDATE\<close> carries its \<open>WHERE\<close> clause and its \<open>SET\<close>
  clause as functions on a row; an \<open>INSERT\<close> carries the proposed row, defaults filled
  in. A statement that violates a constraint fails as a whole and changes nothing.
\<close>

datatype 'r statement =
  INSERT 'r
| UPDATE "'r \<Rightarrow> bool" "'r \<Rightarrow> 'r"
| DELETE "'r \<Rightarrow> bool"

text \<open>
  \<open>store\<close> turns a proposed row into the row as stored (numeric columns rounded) or
  into the constraint it violates; \<open>table_check\<close> holds the constraints across rows.
\<close>

fun store_where ::
  "('r \<Rightarrow> db_error + 'r) \<Rightarrow> ('r \<Rightarrow> bool) \<Rightarrow> ('r \<Rightarrow> 'r) \<Rightarrow> 'r list \<Rightarrow> db_error + 'r list" where
  "store_where store wh st [] = Inr []"
| "store_where store wh st (r # rs) =
     (if wh r then
        (case store (st r) of
           Inl e \<Rightarrow> Inl e
         | Inr r' \<Rightarrow>
             (case store_where store wh st rs of
                Inl e \<Rightarrow> Inl e
              | Inr rs' \<Rightarrow> Inr (r' # rs')))
      else
        (case store_where store wh st rs of
           Inl e \<Rightarrow> Inl e
         | Inr rs' \<Rightarrow> Inr (r # rs')))"

fun applied :: "('r \<Rightarrow> db_error + 'r) \<Rightarrow> 'r statement \<Rightarrow> 'r list \<Rightarrow> db_error + 'r list" where
  "applied store (INSERT r) tbl =
     (case store r of Inl e \<Rightarrow> Inl e | Inr r' \<Rightarrow> Inr (tbl @ [r']))"
| "applied store (UPDATE wh st) tbl = store_where store wh st tbl"
| "applied store (DELETE wh) tbl = Inr (filter (\<lambda>r. \<not> wh r) tbl)"

definition execute ::
  "('r \<Rightarrow> db_error + 'r) \<Rightarrow> ('r list \<Rightarrow> db_error option) \<Rightarrow> 'r statement \<Rightarrow> 'r list
     \<Rightarrow> db_error + 'r list" where
  "execute store table_check stmt tbl =
     (case applied store stmt tbl of
        Inl e \<Rightarrow> Inl e
      | Inr tbl' \<Rightarrow>
          (case table_check tbl' of
             Some e \<Rightarrow> Inl e
           | None \<Rightarrow> Inr tbl'))"

text \<open>A session: statements one after the other, a failed one leaving the table as it was.\<close>

fun run ::
  "('r \<Rightarrow> db_error + 'r) \<Rightarrow> ('r list \<Rightarrow> db_error option) \<Rightarrow> 'r statement list \<Rightarrow> 'r list
     \<Rightarrow> 'r list" where
  "run store table_check [] tbl = tbl"
| "run store table_check (stmt # rest) tbl =
     (case execute store table_check stmt tbl of
        Inl e \<Rightarrow> run store table_check rest tbl
      | Inr tbl' \<Rightarrow> run store table_check rest tbl')"

subsection \<open>Cases\<close>

record cases_row =
  cases_id :: "string option"
  patient_id :: "string option"
  phw_id :: "string option"
  specialist_id :: "string option"
  status :: "string option"
  chief_complaint_col :: "string option"
  escalation_reason :: "string option"
  specialist_magic_token :: "string option"
  magic_token_expires_at :: "int option"
  closed_at :: "int option"
  cases_created_at :: "int option"
  updated_at :: "int option"
  deleted_at :: "int option"

record cases_insert =
  ins_id :: "string column"
  ins_patient_id :: "string column"
  ins_phw_id :: "string column"
  ins_specialist_id :: "string column"
  ins_status :: "string column"
  ins_chief_complaint :: "string column"
  ins_escalation_reason :: "string column"
  ins_specialist_magic_token :: "string column"
  ins_magic_token_expires_at :: "int column"
  ins_closed_at :: "int column"
  ins_created_at :: "int column"
  ins_updated_at :: "int column"
  ins_deleted_at :: "int column"

text \<open>The row an \<open>INSERT\<close> proposes; \<open>uuid\<close> is \<open>uuid_generate_v4()\<close>, \<open>now\<close> is \<open>NOW()\<close>.\<close>

definition cases_defaults :: "string \<Rightarrow> int \<Rightarrow> cases_insert \<Rightarrow> cases_row" where
  "cases_defaults uuid now i =
     \<lparr>cases_id = supplied (Some uuid) (ins_id i),
      patient_id = supplied None (ins_patient_id i),
      phw_id = supplied None (ins_phw_id i),
      specialist_id = supplied None (ins_specialist_id i),
      status = supplied (Some ''intake'') (ins_status i),
      chief_complaint_col = supplied None (ins_chief_complaint i),
      escalation_reason = supplied None (ins_escalation_reason i),
      specialist_magic_token = supplied None (ins_specialist_magic_token i),
      magic_token_expires_at = supplied None (ins_magic_token_expires_at i),
      closed_at = supplied None (ins_closed_at i),
      cases_created_at = supplied (Some now) (ins_created_at i),
      updated_at = supplied (Some now) (ins_updated_at i),
      deleted_at = supplied None (ins_deleted_at i)\<rparr>"

text \<open>The constraints on one row of \<open>cases\<close>.\<close>

definition cases_row_check :: "cases_row \<Rightarrow> db_error option" where
  "cases_row_check r =
     (if cases_id r = None then Some (not_null_violation ''id'')
      else if patient_id r = None then Some (not_null_violation ''patient_id'')
      else if phw_id r = None then Some (not_null_violation ''phw_id'')
      else if status r = None then Some (not_null_violation ''status'')
      else if \<not> enum_ok case_status (status r) then Some (invalid_enum_value ''case_status'')
      else if cases_created_at r = None then Some (not_null_violation ''created_at'')
      else if updated_at r = None then Some (not_null_violation ''updated_at'')
      else None)"

text \<open>The constraints across rows: the primary key and the unique magic token.\<close>

definition cases_table_check :: "cases_row list \<Rightarrow> db_error option" where
  "cases_table_check tbl =
     (if \<not> distinct (map cases_id tbl) then Some (unique_violation ''cases_pkey'')
      else if \<not> distinct (filter (\<lambda>t. t \<noteq> None) (map specialist_magic_token tbl))
        then Some (unique_violation ''cases_specialist_magic_token_key'')
      else None)"

text \<open>
  An \<open>UPDATE\<close> of \<open>cases\<close> fires the trigger \<open>trg_cases_updated\<close>, which sets
  \<open>updated_at\<close> on every row it changes.
\<close>

definition INSERT_cases :: "string \<Rightarrow> int \<Rightarrow> cases_insert \<Rightarrow> cases_row statement" where
  "INSERT_cases uuid now i = INSERT (cases_defaults uuid now i)"

definition UPDATE_cases ::
  "int \<Rightarrow> (cases_row \<Rightarrow> bool) \<Rightarrow> (cases_row \<Rightarrow> cases_row) \<Rightarrow> cases_row statement" where
  "UPDATE_cases now wh st = UPDATE wh (\<lambda>r. (st r)\<lparr>updated_at := Some now\<rparr>)"

definition cases_store :: "cases_row \<Rightarrow> db_error + cases_row" where
  "cases_store r = (case cases_row_check r of Some e \<Rightarrow> Inl e | None \<Rightarrow> Inr r)"

definition execute_cases :: "cases_row statement \<Rightarrow> cases_row list \<Rightarrow> db_error + cases_row list" where
  "execute_cases = execute cases_store cases_table_check"

definition run_cases :: "cases_row statement list \<Rightarrow> cases_row list \<Rightarrow> cases_row list" where
  "run_cases = run cases_store cases_table_check"

subsection \<open>Vitals\<close>

record vitals_row =
  vitals_id :: "string option"
  vitals_case_id :: "string option"
  recorded_by :: "string option"
  systolic_bp_col :: "int option"
  diastolic_bp_col :: "int option"
  heart_rate_col :: "int option"
  respiratory_rate_col :: "int option"
  spo2_col :: "rat option"
  temperature_col :: "rat option"
  blood_glucose_mgdl_col :: "int option"
  weight_kg_col :: "rat option"
  gcs_score_col :: "int option"
  raw_readings :: "string option"
  recorded_at :: "int option"

definition vitals_row_check :: "vitals_row \<Rightarrow> db_error option" where
  "vitals_row_check r =
     (if vitals_id r = None then Some (not_null_violation ''id'')
      else if vitals_case_id r = None then Some (not_null_violation ''case_id'')
      else if recorded_by r = None then Some (not_null_violation ''recorded_by'')
      else if \<not> between (systolic_bp_col r) 40 350 then Some (check_violation ''systolic_bp'')
      else if \<not> between (diastolic_bp_col r) 20 250 then Some (check_violation ''diastolic_bp'')
      else if \<not> between (heart_rate_col r) 20 350 then Some (check_violation ''heart_rate'')
      else if \<not> between (respiratory_rate_col r) 4 80
        then Some (check_violation ''respiratory_rate'')
      else if \<not> between (spo2_col r) 50 100 then Some (check_violation ''spo2'')
      else if \<not> between (temperature_col r) 30 45 then Some (check_violation ''temperature'')
      else if \<not> between (blood_glucose_mgdl_col r) 20 1000
        then Some (check_violation ''blood_glucose_mgdl'')
      else if \<not> between (gcs_score_col r) 3 15 then Some (check_violation ''gcs_score'')
      else if recorded_at r = None then Some (not_null_violation ''recorded_at'')
      else None)"

definition vitals_store :: "vitals_row \<Rightarrow> db_error + vitals_row" where
  "vitals_store r =
     (if \<not> (smallint_ok (systolic_bp_col r) \<and> smallint_ok (diastolic_bp_col r)
            \<and> smallint_ok (heart_rate_col r) \<and> smallint_ok (respiratory_rate_col r)
            \<and> smallint_ok (blood_glucose_mgdl_col r) \<and> smallint_ok (gcs_score_col r))
        then Inl (numeric_overflow ''smallint'')
      else
        (case (numeric 4 1 (spo2_col r), numeric 4 1 (temperature_col r),
               numeric 5 1 (weight_kg_col r)) of
           (Some sp, Some te, Some we) \<Rightarrow>
             (let r' = r\<lparr>spo2_col := sp, temperature_col := te, weight_kg_col := we\<rparr>
              in case vitals_row_check r' of Some e \<Rightarrow> Inl e | None \<Rightarrow> Inr r')
         | _ \<Rightarrow> Inl (numeric_overflow ''numeric'')))"

definition vitals_table_check :: "vitals_row list \<Rightarrow> db_error option" where
  "vitals_table_check tbl =
     (if \<not> distinct (map vitals_id tbl) then Some (unique_violation ''vitals_pkey'') else None)"

subsection \<open>Risk assessments\<close>

record risk_assessments_row =
  ra_id :: "string option"
  ra_case_id :: "string option"
  ra_vitals_id :: "string option"
  rule_triggered_col :: "bool option"
  rule_level_col :: "string option"
  rule_reasons_col :: "string list option"
  ml_risk_probability_col :: "rat option"
  ml_risk_level_col :: "string option"
  shap_values_col :: "(string \<times> rat) list option"
  shap_top_features_col :: "SHAPFeature list option"
  shap_text_interpretation_col :: "string option"
  med_warnings_col :: "MedWarning list option"
  med_override_triggered_col :: "bool option"
  final_risk_level_col :: "string option"
  final_risk_score_col :: "rat option"
  recommendation_col :: "string option"
  escalation_suggested_col :: "bool option"
  sbar_situation_col :: "string option"
  sbar_background_col :: "string option"
  sbar_assessment_col :: "string option"
  sbar_recommendation_col :: "string option"
  sbar_generated_at_col :: "int option"
  model_version_col :: "string option"
  assessed_at_col :: "int option"

definition risk_assessments_row_check :: "risk_assessments_row \<Rightarrow> db_error option" where
  "risk_assessments_row_check r =
     (if ra_id r = None then Some (not_null_violation ''id'')
      else if ra_case_id r = None then Some (not_null_violation ''case_id'')
      else if rule_triggered_col r = None then Some (not_null_violation ''rule_triggered'')
      else if \<not> enum_ok risk_level (rule_level_col r) then Some (invalid_enum_value ''risk_level'')
      else if \<not> between (ml_risk_probability_col r) 0 1
        then Some (check_violation ''ml_risk_probability'')
      else if \<not> enum_ok risk_level (ml_risk_level_col r)
        then Some (invalid_enum_value ''risk_level'')
      else if final_risk_level_col r = None then Some (not_null_violation ''final_risk_level'')
      else if \<not> enum_ok risk_level (final_risk_level_col r)
        then Some (invalid_enum_value ''risk_level'')
      else if (case model_version_col r of None \<Rightarrow> False | Some v \<Rightarrow> 50 < length v)
        then Some (value_too_long ''model_version'')
      else if assessed_at_col r = None then Some (not_null_violation ''assessed_at'')
      else None)"

definition risk_assessments_store :: "risk_assessments_row \<Rightarrow> db_error + risk_assessments_row" where
  "risk_assessments_store r =
     (case (numeric 4 3 (ml_risk_probability_col r), numeric 4 3 (final_risk_score_col r)) of
        (Some pr, Some sc) \<Rightarrow>
          (let r' = r\<lparr>ml_risk_probability_col := pr, final_risk_score_col := sc\<rparr>
           in case risk_assessments_row_check r' of Some e \<Rightarrow> Inl e | None \<Rightarrow> Inr r')
      | _ \<Rightarrow> Inl (numeric_overflow ''numeric''))"

definition risk_assessments_table_check :: "risk_assessments_row list \<Rightarrow> db_error option" where
  "risk_assessments_table_check tbl =
     (if \<not> distinct (map ra_id tbl) then Some (unique_violation ''risk_assessments_pkey'')
      else None)"

definition run_risk_assessments ::
  "risk_assessments_row statement list \<Rightarrow> risk_assessments_row list \<Rightarrow> risk_assessments_row list" where
  "run_risk_assessments = run risk_assessments_store risk_assessments_table_check"


section \<open>The decision service\<close>

text \<open>
  The service behind \<open>/api/v1\<close> is not among the sources; the client, the schema and
  the documents are. What the properties below need of it is modelled from the
  specification, each definition saying so.
\<close>

text \<open>
  Modelled from the spec: the error kinds of the service (section 7), the service's
  code not being among the sources; \<open>fatal\<close> is the failure of the rule guardrail.
\<close>

datatype service_error =
  validationError "string list"
| authError
| tokenInvalid
| stateError string
| unavailable string
| internal db_error
| fatal string

text \<open>A value outside a closed range.\<close>

definition outside :: "'a::linorder \<Rightarrow> 'a \<Rightarrow> 'a \<Rightarrow> bool" where
  "outside x lo hi = (x < lo \<or> hi < x)"

text \<open>
  Modelled from the spec: the range check of the vitals of an intake payload, the
  validator of the service not being among the sources (section 3: systolic pressure 40
  to 350, diastolic pressure 20 to 250, heart rate 20 to 350, respiratory rate 4 to 80,
  SpO2 50.0 to 100.0, temperature 30.0 to 45.0, blood glucose 20 to 1000 and GCS 3 to 15
  when given). The result lists the offending fields.
\<close>

definition offending_vitals :: "VitalsInput \<Rightarrow> string list" where
  "offending_vitals v =
     (if outside (systolic_bp v) 40 350 then [''systolic_bp''] else []) @
     (if outside (diastolic_bp v) 20 250 then [''diastolic_bp''] else []) @
     (if outside (heart_rate v) 20 350 then [''heart_rate''] else []) @
     (if outside (respiratory_rate v) 4 80 then [''respiratory_rate''] else []) @
     (if outside (spo2 v) 50 100 then [''spo2''] else []) @
     (if outside (temperature v) 30 45 then [''temperature''] else []) @
     (case blood_glucose_mgdl v of
        Some g \<Rightarrow> (if outside g 20 1000 then [''blood_glucose_mgdl''] else [])
      | None \<Rightarrow> []) @
     (case gcs_score v of
        Some g \<Rightarrow> (if outside g 3 15 then [''gcs_score''] else [])
      | None \<Rightarrow> [])"

text \<open>
  Modelled from the spec: the validation of an intake payload, which the service runs
  first and which is not among the sources (section 3: age 0 to 150, the vitals'
  ranges, a symptom's duration of at least 0; section 6: a validation failure
  enumerates the offending fields). The empty list is a valid payload.
\<close>

definition validate_intake :: "PatientIntakeRequest \<Rightarrow> string list" where
  "validate_intake req =
     (if outside (age req) 0 150 then [''age''] else []) @
     offending_vitals (vitals req) @
     (if list_ex (\<lambda>sy. case duration_hours sy of Some d \<Rightarrow> d < 0 | None \<Rightarrow> False)
           (symptoms req)
      then [''symptoms.duration_hours''] else [])"

text \<open>
  Modelled from the spec: the three analyzers as the aggregator sees them (section
  4.4, failure model). The rule guardrail returns its result or fails; the risk model
  returns its result or is unavailable (\<open>None\<close>); the medication engine returns its
  warnings or fails (\<open>None\<close>). What each computes is a parameter.
\<close>

record analyzers =
  rule_guardrail :: "VitalsInput \<Rightarrow> SymptomInput list \<Rightarrow> VulnerabilityFlags
                       \<Rightarrow> string + RuleEngineResult"
  risk_model :: "PatientIntakeRequest \<Rightarrow> MLResult option"
  medication_engine :: "MedicationInput list \<Rightarrow> VulnerabilityFlags \<Rightarrow> SymptomInput list
                          \<Rightarrow> MedWarning list option"

text \<open>
  Modelled from the spec: the order of the risk levels, critical over high over
  moderate over low (section 4.1), and the worse of two levels.
\<close>

fun rank :: "RiskLevel \<Rightarrow> nat" where
  "rank low = 0"
| "rank moderate = 1"
| "rank high = 2"
| "rank critical = 3"

definition worst :: "RiskLevel \<Rightarrow> RiskLevel \<Rightarrow> RiskLevel" where
  "worst a b = (if rank b \<le> rank a then a else b)"

text \<open>
  Modelled from the spec: the override precedence of the aggregator (section 4.4,
  steps 1 to 3). In step 2 an absent model contributes no level.
\<close>

definition final_level :: "RuleEngineResult \<Rightarrow> MLResult option \<Rightarrow> MedWarning list \<Rightarrow> RiskLevel" where
  "final_level rule ml meds =
     (if rule_risk_level rule = Some critical then critical
      else if list_ex override_triggered meds then
        (case ml of Some m \<Rightarrow> worst (ml_risk_level m) high | None \<Rightarrow> high)
      else
        (case ml of
           Some m \<Rightarrow> ml_risk_level m
         | None \<Rightarrow> (case rule_risk_level rule of Some l \<Rightarrow> worst l low | None \<Rightarrow> low)))"

text \<open>Modelled from the spec: the score of the aggregated result (section 4.4).\<close>

definition final_score :: "RiskLevel \<Rightarrow> MLResult option \<Rightarrow> rat" where
  "final_score lvl ml =
     (case ml of
        Some m \<Rightarrow> risk_probability m
      | None \<Rightarrow>
          (case lvl of
             critical \<Rightarrow> 1
           | high \<Rightarrow> 70 / 100
           | moderate \<Rightarrow> 45 / 100
           | low \<Rightarrow> 15 / 100))"

text \<open>
  Modelled from the spec: the parts the recommendation is composed of, in their
  order (section 4.4): the final level for the leading tag, the first rule reason if
  any, the model's text if any, each warning's severity and message. The wording is
  the template's, a parameter.
\<close>

type_synonym template =
  "RiskLevel \<Rightarrow> string option \<Rightarrow> string option \<Rightarrow> (Severity \<times> string) list \<Rightarrow> string"

text \<open>
  Modelled from the spec: the composition of the recommendation from those parts
  (section 4.4), the aggregator not being among the sources.
\<close>

definition compose_recommendation ::
  "template \<Rightarrow> RiskLevel \<Rightarrow> RuleEngineResult \<Rightarrow> MLResult option \<Rightarrow> MedWarning list \<Rightarrow> string" where
  "compose_recommendation tmpl lvl rule ml meds =
     tmpl lvl
       (case reasons rule of [] \<Rightarrow> None | r # _ \<Rightarrow> Some r)
       (map_option shap_text ml)
       (map (\<lambda>w. (severity w, warning_message w)) meds)"

text \<open>
  Modelled from the spec: what one analyze call is given besides the payload: the
  caller, the fresh identifiers of the rows it creates, the time, and the model
  version.
\<close>

record analyze_context =
  ctx_phw_id :: string
  ctx_patient_id :: string
  ctx_case_id :: string
  ctx_vitals_id :: string
  ctx_assessment_id :: string
  ctx_now :: int
  ctx_now_iso :: string
  ctx_model_version :: "string option"

text \<open>Modelled from the spec: the aggregated assessment as the response carries it.\<close>

definition aggregate ::
  "template \<Rightarrow> analyze_context \<Rightarrow> RuleEngineResult \<Rightarrow> MLResult option \<Rightarrow> MedWarning list
     \<Rightarrow> RiskAssessmentResponse" where
  "aggregate tmpl ctx rule ml meds =
     (let lvl = final_level rule ml meds in
      \<lparr>assessment_id = ctx_assessment_id ctx,
       case_id = ctx_case_id ctx,
       final_risk_level = lvl,
       final_risk_score = final_score lvl ml,
       rule_engine = rule,
       ml_result = ml,
       med_warnings = meds,
       recommendation = compose_recommendation tmpl lvl rule ml meds,
       escalation_suggested = (lvl = high \<or> lvl = critical \<or> list_ex override_triggered meds),
       assessed_at = ctx_now_iso ctx\<rparr>)"

text \<open>
  Modelled from the spec: a level as the label the store holds for it (section 3, the
  four tiers; the labels are those of the schema's \<open>risk_level\<close> type).
\<close>

fun risk_level_label :: "RiskLevel \<Rightarrow> string" where
  "risk_level_label low = ''low''"
| "risk_level_label moderate = ''moderate''"
| "risk_level_label high = ''high''"
| "risk_level_label critical = ''critical''"

text \<open>
  Modelled from the spec: the row \<open>create_case\<close> writes for the case of a request
  (section 4.6; section 3: a case starts in \<open>intake\<close>, the column's default), the case
  store's code not being among the sources.
\<close>

definition new_case :: "analyze_context \<Rightarrow> PatientIntakeRequest \<Rightarrow> cases_insert" where
  "new_case ctx req =
     \<lparr>ins_id = VALUE (Some (ctx_case_id ctx)),
      ins_patient_id = VALUE (Some (ctx_patient_id ctx)),
      ins_phw_id = VALUE (Some (ctx_phw_id ctx)),
      ins_specialist_id = DEFAULT,
      ins_status = DEFAULT,
      ins_chief_complaint = VALUE (Some (chief_complaint req)),
      ins_escalation_reason = DEFAULT,
      ins_specialist_magic_token = DEFAULT,
      ins_magic_token_expires_at = DEFAULT,
      ins_closed_at = DEFAULT,
      ins_created_at = DEFAULT,
      ins_updated_at = DEFAULT,
      ins_deleted_at = DEFAULT\<rparr>"

text \<open>
  Modelled from the spec: the row \<open>append_vitals\<close> writes for the vitals snapshot of a
  request (section 4.6), the case store's code not being among the sources.
\<close>

definition new_vitals :: "analyze_context \<Rightarrow> VitalsInput \<Rightarrow> vitals_row" where
  "new_vitals ctx v =
     \<lparr>vitals_id = Some (ctx_vitals_id ctx),
      vitals_case_id = Some (ctx_case_id ctx),
      recorded_by = Some (ctx_phw_id ctx),
      systolic_bp_col = Some (systolic_bp v),
      diastolic_bp_col = Some (diastolic_bp v),
      heart_rate_col = Some (heart_rate v),
      respiratory_rate_col = Some (respiratory_rate v),
      spo2_col = Some (spo2 v),
      temperature_col = Some (temperature v),
      blood_glucose_mgdl_col = blood_glucose_mgdl v,
      weight_kg_col = weight_kg v,
      gcs_score_col = gcs_score v,
      raw_readings = Some ''{}'',
      recorded_at = Some (ctx_now ctx)\<rparr>"

text \<open>
  Modelled from the spec: the row \<open>write_assessment\<close> writes for an aggregated
  assessment (sections 3 and 4.6), the case store's code not being among the sources.
\<close>

definition new_assessment :: "analyze_context \<Rightarrow> RiskAssessmentResponse \<Rightarrow> risk_assessments_row" where
  "new_assessment ctx a =
     \<lparr>ra_id = Some (assessment_id a),
      ra_case_id = Some (case_id a),
      ra_vitals_id = Some (ctx_vitals_id ctx),
      rule_triggered_col = Some (triggered (rule_engine a)),
      rule_level_col = map_option risk_level_label (rule_risk_level (rule_engine a)),
      rule_reasons_col = Some (reasons (rule_engine a)),
      ml_risk_probability_col = map_option risk_probability (ml_result a),
      ml_risk_level_col = map_option (\<lambda>m. risk_level_label (ml_risk_level m)) (ml_result a),
      shap_values_col =
        Some (case ml_result a of
                None \<Rightarrow> []
              | Some m \<Rightarrow> map (\<lambda>f. (feature f, shap_value f)) (shap_features m)),
      shap_top_features_col =
        Some (case ml_result a of None \<Rightarrow> [] | Some m \<Rightarrow> shap_features m),
      shap_text_interpretation_col = map_option shap_text (ml_result a),
      med_warnings_col = Some (med_warnings a),
      med_override_triggered_col = Some (list_ex override_triggered (med_warnings a)),
      final_risk_level_col = Some (risk_level_label (final_risk_level a)),
      final_risk_score_col = Some (final_risk_score a),
      recommendation_col = Some (recommendation a),
      escalation_suggested_col = Some (escalation_suggested a),
      sbar_situation_col = None,
      sbar_background_col = None,
      sbar_assessment_col = None,
      sbar_recommendation_col = None,
      sbar_generated_at_col = None,
      model_version_col = ctx_model_version ctx,
      assessed_at_col = Some (ctx_now ctx)\<rparr>"

text \<open>
  Modelled from the spec: the state of the service that an analyze call can change: the
  three tables it writes (section 4.6), the analyzers started so far, and the
  diagnostics logged (section 4.4).
\<close>

record service_state =
  cases_tbl :: "cases_row list"
  vitals_tbl :: "vitals_row list"
  risk_assessments_tbl :: "risk_assessments_row list"
  analyzer_runs :: "string list"
  diagnostics :: "string list"

text \<open>
  Modelled from the spec: the handler of \<open>POST /analyze/risk\<close> (section 2, data
  flow: the request validates, forks into the three analyzers, joins at the
  aggregator, writes the assessment, returns the response; section 4.4, failure
  model; section 3, case lifecycle). The writes are one transaction: a failed write
  leaves the tables as they were.
\<close>

definition analyze_risk ::
  "analyzers \<Rightarrow> template \<Rightarrow> analyze_context \<Rightarrow> PatientIntakeRequest \<Rightarrow> service_state
     \<Rightarrow> (service_error + RiskAssessmentResponse) \<times> service_state" where
  "analyze_risk an tmpl ctx req st =
     (case validate_intake req of
        f # fs \<Rightarrow> (Inl (validationError (f # fs)), st)
      | [] \<Rightarrow>
          (let st1 = st\<lparr>analyzer_runs := analyzer_runs st @ [''rule'', ''model'', ''medication'']\<rparr>
           in case rule_guardrail an (vitals req) (symptoms req) (vulnerability_flags req) of
                Inl msg \<Rightarrow> (Inl (fatal msg), st1)
              | Inr rule \<Rightarrow>
                  (let ml = risk_model an req;
                       med = medication_engine an (medications req) (vulnerability_flags req)
                               (symptoms req);
                       meds = (case med of None \<Rightarrow> [] | Some ws \<Rightarrow> ws);
                       st2 = (case med of
                                None \<Rightarrow> st1\<lparr>diagnostics := diagnostics st1 @ [''medication engine failed'']\<rparr>
                              | Some ws \<Rightarrow> st1);
                       a = aggregate tmpl ctx rule ml meds
                   in case execute_cases (INSERT_cases (ctx_case_id ctx) (ctx_now ctx) (new_case ctx req))
                             (cases_tbl st2) of
                        Inl e \<Rightarrow> (Inl (internal e), st2)
                      | Inr cases1 \<Rightarrow>
                          (case execute vitals_store vitals_table_check
                                  (INSERT (new_vitals ctx (vitals req))) (vitals_tbl st2) of
                             Inl e \<Rightarrow> (Inl (internal e), st2)
                           | Inr vitals1 \<Rightarrow>
                               (case execute risk_assessments_store risk_assessments_table_check
                                       (INSERT (new_assessment ctx a)) (risk_assessments_tbl st2) of
                                  Inl e \<Rightarrow> (Inl (internal e), st2)
                                | Inr assessments1 \<Rightarrow>
                                    (case execute_cases
                                            (UPDATE_cases (ctx_now ctx)
                                               (\<lambda>r. cases_id r = Some (ctx_case_id ctx))
                                               (\<lambda>r. r\<lparr>status := Some ''analyzed''\<rparr>))
                                            cases1 of
                                       Inl e \<Rightarrow> (Inl (internal e), st2)
                                     | Inr cases2 \<Rightarrow>
                                         (Inr a,
                                          st2\<lparr>cases_tbl := cases2, vitals_tbl := vitals1,
                                              risk_assessments_tbl := assessments1\<rparr>)))))))"

text \<open>Modelled from the spec: the service as it starts, with empty tables.\<close>

definition service_initial :: service_state where
  "service_initial =
     \<lparr>cases_tbl = [], vitals_tbl = [], risk_assessments_tbl = [], analyzer_runs = [],
      diagnostics = []\<rparr>"

text \<open>
  Modelled from the spec: a sequence of analyze calls served one after the other
  (section 5: the writes of one case are serialized), each with its own analyzers'
  behaviour, template and context.
\<close>

fun serve ::
  "(analyzers \<times> template \<times> analyze_context \<times> PatientIntakeRequest) list \<Rightarrow> service_state
     \<Rightarrow> service_state" where
  "serve [] st = st"
| "serve ((an, tmpl, ctx, req) # rest) st = serve rest (snd (analyze_risk an tmpl ctx req st))"

section \<open>Concrete inputs\<close>

text \<open>A browser that has just loaded the client, nothing stored.\<close>

definition browser :: api_state where
  "browser = \<lparr>token_var = None, has_window = True, local_storage = Map.empty,
              NEXT_PUBLIC_API_URL = None, NEXT_PUBLIC_WS_URL = None\<rparr>"


text \<open>A service that answers every request with 404 and no JSON body.\<close>

definition not_found :: "'q \<Rightarrow> 'a fetch_outcome" where
  "not_found req = Responded \<lparr>response_status = 404, json = None\<rparr>"



text \<open>A service that answers every request with 403 and a reason.\<close>

definition forbidden :: "'q \<Rightarrow> AdviceAck fetch_outcome" where
  "forbidden req =
     Responded \<lparr>response_status = 403,
                json = Some \<lparr>detail = Some ''Token expired'', error_field = None,
                              payload = \<lparr>ack_status = [], ack_case_id = []\<rparr>\<rparr>\<rparr>"

text \<open>A service that accepts the advice, and one that serves a bundle.\<close>

definition advice_accepted :: "'q \<Rightarrow> AdviceAck fetch_outcome" where
  "advice_accepted req =
     Responded \<lparr>response_status = 200,
                json = Some \<lparr>detail = None, error_field = None,
                              payload = \<lparr>ack_status = ''ok'', ack_case_id = ''demo-case-001''\<rparr>\<rparr>\<rparr>"

definition bundle_served :: "'q \<Rightarrow> SpecialistPortalData fetch_outcome" where
  "bundle_served req =
     Responded \<lparr>response_status = 200,
                json = Some \<lparr>detail = None, error_field = None,
                              payload = demo ''2025-01-15T10:30:00Z''\<rparr>\<rparr>"

text \<open>
  The portal page opened with the link token \<open>tok-123\<close>, its bundle loaded, and the
  specialist having chosen an urgent referral.
\<close>

definition portal_ready :: "PortalPage \<times> api_state" where
  "portal_ready =
     (case loadPortal bundle_served ''2025-01-15T10:30:00Z'' ''tok-123''
             (PortalPage_initial, browser) of
        (p, s) \<Rightarrow> (p\<lparr>adviceType := Some urgent_referral\<rparr>, s))"



text \<open>
  A session on \<open>cases\<close>: a case is created, an update to a status outside the enum
  is tried, then the case is escalated.
\<close>

definition case_created :: cases_insert where
  "case_created =
     \<lparr>ins_id = DEFAULT, ins_patient_id = VALUE (Some ''p1''), ins_phw_id = VALUE (Some ''u1''),
      ins_specialist_id = DEFAULT, ins_status = DEFAULT, ins_chief_complaint = DEFAULT,
      ins_escalation_reason = DEFAULT, ins_specialist_magic_token = DEFAULT,
      ins_magic_token_expires_at = DEFAULT, ins_closed_at = DEFAULT, ins_created_at = DEFAULT,
      ins_updated_at = DEFAULT, ins_deleted_at = DEFAULT\<rparr>"

definition case_session :: "cases_row statement list" where
  "case_session =
     [INSERT_cases ''c1'' 100 case_created,
      UPDATE_cases 200 (\<lambda>r. cases_id r = Some ''c1'') (\<lambda>r. r\<lparr>status := Some ''active''\<rparr>),
      UPDATE_cases 300 (\<lambda>r. cases_id r = Some ''c1'') (\<lambda>r. r\<lparr>status := Some ''escalated''\<rparr>)]"

text \<open>A parser that accepts the frame \<open>1\<close> only, and a subscriber that counts.\<close>

definition parse_one :: "string \<Rightarrow> nat option" where
  "parse_one d = (if d = ''1'' then Some 1 else None)"

definition counting :: "nat \<Rightarrow> (unit, nat) js" where
  "counting m n = (Inr (), n + m)"

text \<open>A subscriber that counts and then throws.\<close>

definition failing :: "nat \<Rightarrow> (unit, nat) js" where
  "failing m n = (Inl (Error ''subscriber failed''), n + m)"

definition quiet :: "(nat, nat) ws_world" where
  "quiet = \<lparr>calls = [], console = [], subscriber = 0\<rparr>"

text \<open>
  An intake in the manner of scenario S1 of the specification: low blood pressure, a
  red-flag symptom, one medication.
\<close>

definition intake_critical :: PatientIntakeRequest where
  "intake_critical =
     \<lparr>patient_name = ''Sunita Devi'', age = 45, sex = female, village = None, district = None,
      vulnerability_flags =
        \<lparr>pregnant = False, diabetic = True, elderly = False, heart_disease = True,
         immunocompromised = False\<rparr>,
      vitals =
        \<lparr>systolic_bp = 85, diastolic_bp = 55, heart_rate = 118, respiratory_rate = 26,
         spo2 = 915 / 10, temperature = 388 / 10, blood_glucose_mgdl = None, weight_kg = None,
         gcs_score = None\<rparr>,
      medications =
        [\<lparr>rxnorm_code = None, drug_name = ''Atenolol'', dose = Some ''50mg'',
          frequency = Some ''OD'', route = None\<rparr>],
      symptoms =
        [\<lparr>symptom_name = ''chest pain'', is_red_flag = True, symptom_severity = Some severe,
          duration_hours = None\<rparr>],
      chief_complaint = ''Severe chest pain + breathing difficulty for 2 hours''\<rparr>"

text \<open>The same intake with a systolic pressure no range admits.\<close>

definition intake_out_of_range :: PatientIntakeRequest where
  "intake_out_of_range =
     intake_critical\<lparr>vitals := (vitals intake_critical)\<lparr>systolic_bp := 500\<rparr>\<rparr>"

text \<open>
  Analyzers for it: the guardrail reports critical, the model reports a low risk, the
  medication engine reports nothing. And the same with the model unavailable and the
  guardrail silent.
\<close>

definition critical_rule :: RuleEngineResult where
  "critical_rule =
     \<lparr>triggered = True, rule_risk_level = Some critical,
      reasons = [''Severe hypotension/shock risk: SBP = 85 mmHg''], override_ml = True\<rparr>"

definition low_model :: MLResult where
  "low_model =
     \<lparr>risk_probability = 1 / 10, ml_risk_level = low, shap_features = [], shap_text = []\<rparr>"

definition disagreeing :: analyzers where
  "disagreeing =
     \<lparr>rule_guardrail = (\<lambda>v sy fl. Inr critical_rule),
      risk_model = (\<lambda>req. Some low_model),
      medication_engine = (\<lambda>ms fl sy. Some [])\<rparr>"

definition silent_rule :: RuleEngineResult where
  "silent_rule = \<lparr>triggered = False, rule_risk_level = None, reasons = [], override_ml = False\<rparr>"

definition model_absent :: analyzers where
  "model_absent =
     \<lparr>rule_guardrail = (\<lambda>v sy fl. Inr silent_rule),
      risk_model = (\<lambda>req. None),
      medication_engine = (\<lambda>ms fl sy. Some [])\<rparr>"

definition plain :: template where
  "plain lvl reason model_text warnings = risk_level_label lvl"

definition first_call :: analyze_context where
  "first_call =
     \<lparr>ctx_phw_id = ''u1'', ctx_patient_id = ''p1'', ctx_case_id = ''c1'', ctx_vitals_id = ''v1'',
      ctx_assessment_id = ''a1'', ctx_now = 100, ctx_now_iso = ''2025-01-15T10:30:00Z'',
      ctx_model_version = None\<rparr>"

text \<open>An intake in the manner of scenario S2: nothing out of the ordinary.\<close>

definition intake_benign :: PatientIntakeRequest where
  "intake_benign =
     \<lparr>patient_name = ''Dhruv Shah'', age = 28, sex = male, village = None, district = None,
      vulnerability_flags =
        \<lparr>pregnant = False, diabetic = False, elderly = False, heart_disease = False,
         immunocompromised = False\<rparr>,
      vitals =
        \<lparr>systolic_bp = 122, diastolic_bp = 78, heart_rate = 72, respiratory_rate = 16,
         spo2 = 98, temperature = 369 / 10, blood_glucose_mgdl = None, weight_kg = None,
         gcs_score = None\<rparr>,
      medications = [],
      symptoms =
        [\<lparr>symptom_name = ''mild headache'', is_red_flag = False, symptom_severity = Some mild,
          duration_hours = Some 2\<rparr>],
      chief_complaint = ''Mild headache since the morning''\<rparr>"

text \<open>
  A session on \<open>risk_assessments\<close>: an assessment is written, then one without a final
  level and one with a level outside the enum are tried.
\<close>

definition assessment_low :: risk_assessments_row where
  "assessment_low =
     new_assessment first_call (aggregate plain first_call silent_rule None [])"

definition assessment_session :: "risk_assessments_row statement list" where
  "assessment_session =
     [INSERT assessment_low,
      INSERT (assessment_low\<lparr>ra_id := Some ''a2'', final_risk_level_col := None\<rparr>),
      INSERT (assessment_low\<lparr>ra_id := Some ''a3'', final_risk_level_col := Some ''undefined''\<rparr>)]"

section \<open>Properties of the client\<close>

subsection \<open>Session-token storage\<close>

text \<open>
  C9 (amended). For every non-empty token \<open>t\<close>, \<open>setToken(t)\<close> followed by
  \<open>getToken()\<close> returns \<open>t\<close>, and after \<open>clearToken()\<close> a following \<open>getToken()\<close>
  returns \<open>null\<close>. Where a window exists the token is stored in local storage under
  \<open>cdss_token\<close>, so both also hold across a reload.
\<close>

theorem token_storage_roundtrip:
  assumes "t \<noteq> []"
  shows "fst (getToken (setToken (Some t) s)) = Some t
       \<and> fst (getToken (clearToken s')) = None
       \<and> fst (getToken (reload (clearToken s'))) = None
       \<and> (has_window s \<longrightarrow>
            local_storage (setToken (Some t) s) ''cdss_token'' = Some t
          \<and> fst (getToken (reload (setToken (Some t) s))) = Some t)"
  using assms by (simp add: getToken_def setToken_def clearToken_def reload_def Let_def)

theorem token_storage_roundtrip_witness:
  "fst (getToken (setToken (Some ''abc'') browser)) = Some ''abc''
   \<and> fst (getToken (clearToken (setToken (Some ''abc'') browser))) = None
   \<and> has_window browser
   \<and> local_storage (setToken (Some ''abc'') browser) ''cdss_token'' = Some ''abc''
   \<and> fst (getToken (reload (setToken (Some ''abc'') browser))) = Some ''abc''"
  using token_storage_roundtrip [of "''abc''" browser "setToken (Some ''abc'') browser"]
  by (simp add: browser_def)

text \<open>
  The empty string is a token that is not \<open>null\<close>, and it does not come back: it is
  falsy, so \<open>setToken\<close> removes the stored entry and \<open>getToken\<close> reads storage.
\<close>

theorem empty_token_counterexample:
  "fst (getToken (setToken (Some []) browser)) \<noteq> Some []"
  by (simp add: getToken_def setToken_def Let_def browser_def)

subsection \<open>Requests and their credentials\<close>

lemma request_sent_unauthenticated:
  "fst (snd (request fetch path options False s))
     = \<lparr>url = BASE_URL s @ path, http_method = init_method options,
        headers = [''Content-Type'' \<mapsto> ''application/json''] ++ init_headers options,
        body = init_body options\<rparr>"
  by (simp add: request_def Let_def split: fetch_outcome.splits option.splits)

lemma request_state_unauthenticated:
  "snd (snd (request fetch path options False s)) = s"
  by (simp add: request_def Let_def split: fetch_outcome.splits option.splits)

lemma request_sent_authenticated:
  "init_headers options ''Authorization'' = None \<Longrightarrow>
   headers (fst (snd (request fetch path options True s))) ''Authorization''
     = (if truthy (fst (getToken s)) then map_option ((@) ''Bearer '') (fst (getToken s)) else None)"
  by (cases "getToken s")
     (auto simp: request_def Let_def map_add_def split: fetch_outcome.splits option.splits)

lemma portal_ready_eq:
  "portal_ready = (PortalPage_initial\<lparr>data := Some (demo ''2025-01-15T10:30:00Z''),
      portal_loading := False, adviceType := Some urgent_referral\<rparr>, browser)"
  by (simp add: portal_ready_def loadPortal_def bundle_served_def
      getSpecialistPortal_def get_def request_def ok_def Let_def)

lemma handleSubmitAdvice_request:
  "adviceType p = Some chosen \<Longrightarrow> data p = Some d \<Longrightarrow>
   snd (snd (handleSubmitAdvice fetch parseInt (p, s)))
     = Some (fst (snd (submitAdvice fetch
          \<lparr>adv_case_id = portal_case_id d, advice_type = chosen,
           custom_notes = (if customNotes p \<noteq> [] then Some (customNotes p) else None),
           medications_advised = selectedMeds p,
           investigations = selectedInvest p,
           follow_up_hours =
             (if followUpHours p \<noteq> [] then parseInt (followUpHours p) else None)\<rparr>
          s)))"
  by (auto simp: handleSubmitAdvice_def Let_def split: prod.splits sum.splits)

lemma no_token_in_url:
  "\<not> sublist ''tok-123'' ''http://localhost:8000/api/v1/specialist/advice''"
  by code_simp

lemma no_token_in_case_id: "\<not> sublist ''tok-123'' ''demo-case-001''"
  by code_simp

text \<open>
  C8 (amended). A specialist portal read and an advice submission carry no
  \<open>Authorization\<close> header, whatever session token is stored. The portal read has the
  escalation token in its URL, as its only credential; the advice submission is sent to
  \<open>/specialist/advice\<close> with the advice as its body and no token. The other case
  operations attach \<open>Bearer\<close> and the session token when there is a non-empty one.
\<close>

theorem specialist_requests_carry_no_bearer:
  "headers (fst (snd (getSpecialistPortal fetch1 token s)))
     = [''Content-Type'' \<mapsto> ''application/json'']
   \<and> url (fst (snd (getSpecialistPortal fetch1 token s)))
       = BASE_URL s @ ''/specialist/portal/'' @ token
   \<and> body (fst (snd (getSpecialistPortal fetch1 token s))) = NoBody
   \<and> headers (fst (snd (submitAdvice fetch2 advice s)))
       = [''Content-Type'' \<mapsto> ''application/json'']
   \<and> url (fst (snd (submitAdvice fetch2 advice s))) = BASE_URL s @ ''/specialist/advice''
   \<and> body (fst (snd (submitAdvice fetch2 advice s))) = AdviceBody advice
   \<and> headers (fst (snd (getCases fetch3 s))) ''Authorization''
       = (if truthy (fst (getToken s)) then map_option ((@) ''Bearer '') (fst (getToken s))
          else None)
   \<and> headers (fst (snd (getCase fetch4 caseId s))) ''Authorization''
       = (if truthy (fst (getToken s)) then map_option ((@) ''Bearer '') (fst (getToken s))
          else None)
   \<and> headers (fst (snd (analyzeRisk fetch5 intake s))) ''Authorization''
       = (if truthy (fst (getToken s)) then map_option ((@) ''Bearer '') (fst (getToken s))
          else None)
   \<and> headers (fst (snd (escalateCase fetch6 caseId reason specialistId s))) ''Authorization''
       = (if truthy (fst (getToken s)) then map_option ((@) ''Bearer '') (fst (getToken s))
          else None)"
  by (simp add: getSpecialistPortal_def submitAdvice_def getCases_def getCase_def
        analyzeRisk_def escalateCase_def get_def post_def
        request_sent_unauthenticated request_sent_authenticated)

text \<open>
  The page opened with the token \<open>tok-123\<close> submits advice: the request that leaves
  carries the token nowhere.
\<close>

theorem advice_request_counterexample:
  "map_option (carries ''tok-123'')
     (snd (snd (handleSubmitAdvice advice_accepted (\<lambda>t. None) portal_ready))) = Some False"
  using handleSubmitAdvice_request [of "fst portal_ready" urgent_referral
      "demo ''2025-01-15T10:30:00Z''" advice_accepted "\<lambda>t. None" "snd portal_ready"]
    no_token_in_url no_token_in_case_id
  by (simp add: portal_ready_eq PortalPage_initial_def submitAdvice_def post_def
        request_sent_unauthenticated carries_def BASE_URL_def browser_def demo_def)

subsection \<open>Live events\<close>

text \<open>
  C10. A frame whose payload is not valid JSON does not reach the subscriber's
  callback: the handler logs it and returns, no exception escaping, the subscriber's
  state and the calls made to it as before. A frame of valid JSON is handed to the
  callback exactly once, as parsed: the subscriber's state afterwards is what one call
  of the callback on the parsed message makes of it. No exception escapes then either:
  one the callback throws is logged.
\<close>

theorem onmessage_delivery:
  "(JSON_parse d = None \<longrightarrow>
      onmessage JSON_parse onMessage d w
        = (Inr (), w\<lparr>console := console w @ [(''WS parse error'', d)]\<rparr>))
   \<and> (JSON_parse d = Some m \<longrightarrow>
        onmessage JSON_parse onMessage d w
          = (Inr (),
             (case fst (onMessage m (subscriber w)) of
                Inr u \<Rightarrow>
                  w\<lparr>calls := calls w @ [m], subscriber := snd (onMessage m (subscriber w))\<rparr>
              | Inl e \<Rightarrow>
                  w\<lparr>calls := calls w @ [m], subscriber := snd (onMessage m (subscriber w)),
                    console := console w @ [(''WS parse error'', d)]\<rparr>)))"
  by (cases "onMessage m (subscriber w)")
     (auto simp: onmessage_def try_catch_def invoke_def console_warn_def
           split: prod.splits sum.splits)

theorem onmessage_delivery_witness:
  "parse_one ''not json'' = None
   \<and> onmessage parse_one counting ''not json'' quiet
       = (Inr (), quiet\<lparr>console := [(''WS parse error'', ''not json'')]\<rparr>)
   \<and> parse_one ''1'' = Some 1
   \<and> onmessage parse_one counting ''1'' quiet
       = (Inr (), quiet\<lparr>calls := [1], subscriber := 1\<rparr>)
   \<and> onmessage parse_one failing ''1'' quiet
       = (Inr (), quiet\<lparr>calls := [1], subscriber := 1,
                         console := [(''WS parse error'', ''1'')]\<rparr>)"
  using onmessage_delivery [of parse_one "''not json''" counting quiet 1]
    onmessage_delivery [of parse_one "''1''" counting quiet 1]
    onmessage_delivery [of parse_one "''1''" failing quiet 1]
  by (simp add: parse_one_def quiet_def counting_def failing_def)

subsection \<open>Login\<close>




subsection \<open>The specialist portal\<close>

text \<open>
  C5. A portal read that the service answers with an error (here 404, as for an
  expired or unknown token) ends with the page showing the case review of the built-in
  demo bundle, not the error card.
\<close>

theorem loadPortal_invalid_token_shows_demo:
  "render (fst (loadPortal not_found now_iso token (PortalPage_initial, s)))
     = CaseReview (demo now_iso) False"
  by (simp add: loadPortal_def getSpecialistPortal_def get_def request_def ok_def render_def
        not_found_def PortalPage_initial_def Let_def)

lemma submitAdvice_sent:
  "snd (submitAdvice fetch advice s)
     = (\<lparr>url = BASE_URL s @ ''/specialist/advice'', http_method = Some ''POST'',
         headers = [''Content-Type'' \<mapsto> ''application/json''], body = AdviceBody advice\<rparr>, s)"
  by (simp add: submitAdvice_def post_def prod_eq_iff request_sent_unauthenticated
        request_state_unauthenticated)

lemma submitAdvice_sentD:
  assumes "submitAdvice fetch advice s = (res, req, s')"
  shows "req = \<lparr>url = BASE_URL s @ ''/specialist/advice'', http_method = Some ''POST'',
                headers = [''Content-Type'' \<mapsto> ''application/json''],
                body = AdviceBody advice\<rparr> \<and> s' = s"
  using submitAdvice_sent [of fetch advice s] assms by simp

lemma handleSubmitAdvice_attempt:
  assumes "adviceType p = Some chosen" and "data p = Some d"
  shows "handleSubmitAdvice fetch parseInt (p, s)
        = (p\<lparr>submitted := True, submitting := False\<rparr>, s,
           Some \<lparr>url = BASE_URL s @ ''/specialist/advice'', http_method = Some ''POST'',
                 headers = [''Content-Type'' \<mapsto> ''application/json''],
                 body = AdviceBody
                   \<lparr>adv_case_id = portal_case_id d, advice_type = chosen,
                    custom_notes = (if customNotes p \<noteq> [] then Some (customNotes p) else None),
                    medications_advised = selectedMeds p,
                    investigations = selectedInvest p,
                    follow_up_hours =
                      (if followUpHours p \<noteq> [] then parseInt (followUpHours p) else None)\<rparr>\<rparr>)"
  using assms
  by (auto simp: handleSubmitAdvice_def Let_def split: prod.splits sum.splits
           dest!: submitAdvice_sentD)

text \<open>
  C6 (amended). For every specialist advice submission made with an advice type
  chosen and a bundle loaded, the request is sent and the page then shows the success
  state (the case review with the submitted card), whether the service accepted the
  advice or not: the outcome of the request changes nothing in the result, the page's
  error stays as it was and no error is surfaced. Without an advice type or without a
  bundle nothing is sent and nothing changes.
\<close>

theorem handleSubmitAdvice_shows_success:
  "(adviceType p = Some chosen \<and> data p = Some d \<longrightarrow>
      handleSubmitAdvice fetch parseInt (p, s)
        = (p\<lparr>submitted := True, submitting := False\<rparr>, s,
           Some \<lparr>url = BASE_URL s @ ''/specialist/advice'', http_method = Some ''POST'',
                 headers = [''Content-Type'' \<mapsto> ''application/json''],
                 body = AdviceBody
                   \<lparr>adv_case_id = portal_case_id d, advice_type = chosen,
                    custom_notes = (if customNotes p \<noteq> [] then Some (customNotes p) else None),
                    medications_advised = selectedMeds p,
                    investigations = selectedInvest p,
                    follow_up_hours =
                      (if followUpHours p \<noteq> [] then parseInt (followUpHours p) else None)\<rparr>\<rparr>)
    \<and> portal_error (fst (handleSubmitAdvice fetch parseInt (p, s))) = portal_error p
    \<and> (\<not> portal_loading p \<and> \<not> truthy (portal_error p) \<longrightarrow>
          render (fst (handleSubmitAdvice fetch parseInt (p, s))) = CaseReview d True))
   \<and> (adviceType p = None \<or> data p = None \<longrightarrow>
        handleSubmitAdvice fetch parseInt (p, s) = (p, s, None))"
proof (intro conjI impI)
  assume "adviceType p = None \<or> data p = None"
  then show "handleSubmitAdvice fetch parseInt (p, s) = (p, s, None)"
    by (auto simp: handleSubmitAdvice_def split: option.splits)
next
  assume a: "adviceType p = Some chosen \<and> data p = Some d"
  then show "handleSubmitAdvice fetch parseInt (p, s)
        = (p\<lparr>submitted := True, submitting := False\<rparr>, s,
           Some \<lparr>url = BASE_URL s @ ''/specialist/advice'', http_method = Some ''POST'',
                 headers = [''Content-Type'' \<mapsto> ''application/json''],
                 body = AdviceBody
                   \<lparr>adv_case_id = portal_case_id d, advice_type = chosen,
                    custom_notes = (if customNotes p \<noteq> [] then Some (customNotes p) else None),
                    medications_advised = selectedMeds p,
                    investigations = selectedInvest p,
                    follow_up_hours =
                      (if followUpHours p \<noteq> [] then parseInt (followUpHours p) else None)\<rparr>\<rparr>)"
    using handleSubmitAdvice_attempt by blast
next
  assume a: "adviceType p = Some chosen \<and> data p = Some d"
  then show "portal_error (fst (handleSubmitAdvice fetch parseInt (p, s))) = portal_error p"
    using handleSubmitAdvice_attempt [of p chosen d fetch parseInt s] by simp
next
  assume a: "adviceType p = Some chosen \<and> data p = Some d"
    and b: "\<not> portal_loading p \<and> \<not> truthy (portal_error p)"
  then show "render (fst (handleSubmitAdvice fetch parseInt (p, s))) = CaseReview d True"
    using handleSubmitAdvice_attempt [of p chosen d fetch parseInt s] by (simp add: render_def)
qed

theorem handleSubmitAdvice_shows_success_witness:
  "adviceType (fst portal_ready) = Some urgent_referral
   \<and> data (fst portal_ready) = Some (demo ''2025-01-15T10:30:00Z'')
   \<and> \<not> portal_loading (fst portal_ready) \<and> \<not> truthy (portal_error (fst portal_ready))
   \<and> render (fst (handleSubmitAdvice advice_accepted (\<lambda>t. None) portal_ready))
       = CaseReview (demo ''2025-01-15T10:30:00Z'') True
   \<and> render (fst (handleSubmitAdvice forbidden (\<lambda>t. None) portal_ready))
       = CaseReview (demo ''2025-01-15T10:30:00Z'') True
   \<and> portal_error (fst (handleSubmitAdvice forbidden (\<lambda>t. None) portal_ready)) = None
   \<and> adviceType PortalPage_initial = None
   \<and> handleSubmitAdvice advice_accepted (\<lambda>t. None) (PortalPage_initial, browser)
       = (PortalPage_initial, browser, None)"
  using handleSubmitAdvice_shows_success
          [of "fst portal_ready" urgent_referral "demo ''2025-01-15T10:30:00Z''"
              advice_accepted "\<lambda>t. None" "snd portal_ready"]
        handleSubmitAdvice_shows_success
          [of "fst portal_ready" urgent_referral "demo ''2025-01-15T10:30:00Z''"
              forbidden "\<lambda>t. None" "snd portal_ready"]
        handleSubmitAdvice_shows_success
          [of PortalPage_initial urgent_referral "demo ''2025-01-15T10:30:00Z''"
              advice_accepted "\<lambda>t. None" browser]
  by (simp add: portal_ready_eq PortalPage_initial_def render_def)

text \<open>The service refuses the advice with 403; the page shows the success state.\<close>

theorem advice_refused_counterexample:
  "submitted (fst (handleSubmitAdvice forbidden (\<lambda>t. None) portal_ready))
   \<and> portal_error (fst (handleSubmitAdvice forbidden (\<lambda>t. None) portal_ready)) = None"
  by (simp add: handleSubmitAdvice_def portal_ready_eq submitAdvice_def post_def request_def
        ok_def forbidden_def PortalPage_initial_def Let_def)

section \<open>Properties of the schema\<close>

lemma store_where_preserves:
  assumes "\<And>r r'. store r = Inr r' \<Longrightarrow> P r'"
  shows "list_all P tbl \<Longrightarrow> store_where store wh st tbl = Inr tbl' \<Longrightarrow> list_all P tbl'"
proof (induction tbl arbitrary: tbl')
  case Nil
  then show ?case by simp
next
  case (Cons r rs)
  then show ?case
    using assms by (auto split: if_splits sum.splits)
qed

lemma applied_preserves:
  assumes "\<And>r r'. store r = Inr r' \<Longrightarrow> P r'"
    and "list_all P tbl" and "applied store stmt tbl = Inr tbl'"
  shows "list_all P tbl'"
proof (cases stmt)
  case (INSERT r)
  with assms show ?thesis by (auto split: sum.splits)
next
  case (UPDATE wh st)
  with assms(2,3) store_where_preserves [of store P tbl wh st tbl'] assms(1)
  show ?thesis by simp
next
  case (DELETE wh)
  with assms show ?thesis by (auto simp: list_all_iff)
qed

lemma execute_preserves:
  assumes "\<And>r r'. store r = Inr r' \<Longrightarrow> P r'"
    and "list_all P tbl" and "execute store table_check stmt tbl = Inr tbl'"
  shows "list_all P tbl'"
  using assms applied_preserves [of store P tbl stmt tbl']
  by (auto simp: execute_def split: sum.splits option.splits)

lemma run_preserves:
  assumes "\<And>r r'. store r = Inr r' \<Longrightarrow> P r'"
  shows "list_all P tbl \<Longrightarrow> list_all P (run store table_check stmts tbl)"
proof (induction stmts arbitrary: tbl)
  case Nil
  then show ?case by simp
next
  case (Cons stmt rest)
  show ?case
  proof (cases "execute store table_check stmt tbl")
    case (Inl e)
    with Cons show ?thesis by simp
  next
    case (Inr tbl')
    with Cons.prems assms have "list_all P tbl'"
      using execute_preserves [of store P tbl table_check stmt tbl'] by blast
    with Cons.IH Inr show ?thesis by simp
  qed
qed

lemma cases_store_status:
  "cases_store r = Inr r' \<Longrightarrow> \<exists>l \<in> set case_status. status r' = Some l"
  by (auto simp: cases_store_def cases_row_check_def enum_ok_def split: option.splits if_splits)

lemma case_session_run:
  "map status (run_cases case_session []) = [Some ''escalated'']"
  by (simp add: case_session_def run_cases_def execute_def INSERT_cases_def UPDATE_cases_def
      cases_store_def cases_row_check_def cases_table_check_def cases_defaults_def
      case_created_def supplied_def enum_ok_def case_status_def)

text \<open>
  C4 (amended). The status of a stored case is always a member of the declared set
  \<open>intake\<close>, \<open>analyzed\<close>, \<open>escalated\<close>, \<open>specialist_reviewing\<close>, \<open>advised\<close>, \<open>closed\<close>,
  \<open>cancelled\<close>: no sequence of statements on the \<open>cases\<close> table produces a row whose
  status lies outside it. (The client's own \<open>Case\<close> type has another set of statuses.)
\<close>

theorem stored_case_status_declared:
  "\<forall>r \<in> set (run_cases stmts []). \<exists>l \<in> set case_status. status r = Some l"
proof -
  have "list_all (\<lambda>r. \<exists>l \<in> set case_status. status r = Some l)
          (run cases_store cases_table_check stmts [])"
    by (rule run_preserves) (auto dest: cases_store_status)
  then show ?thesis by (simp add: run_cases_def list_all_iff)
qed

theorem stored_case_status_witness:
  "map status (run_cases case_session []) = [Some ''escalated'']
   \<and> (\<exists>l \<in> set case_status. hd (map status (run_cases case_session [])) = Some l)"
  using stored_case_status_declared [of case_session] case_session_run
  by (cases "run_cases case_session []") auto

text \<open>
  The second case the dashboard lists has the status \<open>active\<close>, which the client's
  \<open>Case\<close> type allows and the declared set does not contain.
\<close>

theorem mock_case_status_counterexample:
  "status_of (MOCK_CASES (\<lambda>t. []) 0 ! 1) \<in> set Case_status
   \<and> status_of (MOCK_CASES (\<lambda>t. []) 0 ! 1) \<notin> set case_status"
  by (simp add: MOCK_CASES_def case_status_def Case_status_def)

section \<open>Properties of the decision service\<close>

subsection \<open>What a stored assessment holds\<close>

lemma risk_assessments_row_check_level:
  assumes "risk_assessments_row_check r = None"
  shows "\<exists>l \<in> set risk_level. final_risk_level_col r = Some l"
proof -
  have "final_risk_level_col r \<noteq> None"
    using assms by (auto simp: risk_assessments_row_check_def split: if_splits)
  moreover have "enum_ok risk_level (final_risk_level_col r)"
    using assms by (auto simp: risk_assessments_row_check_def split: if_splits)
  ultimately show ?thesis
    by (auto simp: enum_ok_def)
qed

lemma risk_assessments_store_checked:
  assumes "risk_assessments_store r = Inr r'"
  shows "risk_assessments_row_check r' = None
       \<and> ra_id r' = ra_id r \<and> final_risk_level_col r' = final_risk_level_col r"
proof (cases "numeric 4 3 (ml_risk_probability_col r)")
  case None
  with assms show ?thesis by (simp add: risk_assessments_store_def)
next
  case pr: (Some pr)
  show ?thesis
  proof (cases "numeric 4 3 (final_risk_score_col r)")
    case None
    with assms pr show ?thesis by (simp add: risk_assessments_store_def)
  next
    case sc: (Some sc)
    show ?thesis
    proof (cases "risk_assessments_row_check
                    (r\<lparr>ml_risk_probability_col := pr, final_risk_score_col := sc\<rparr>)")
      case None
      with assms pr sc show ?thesis by (auto simp: risk_assessments_store_def Let_def)
    next
      case (Some e)
      with assms pr sc show ?thesis by (simp add: risk_assessments_store_def Let_def)
    qed
  qed
qed

lemma risk_assessments_store_level:
  "risk_assessments_store r = Inr r' \<Longrightarrow> \<exists>l \<in> set risk_level. final_risk_level_col r' = Some l"
  using risk_assessments_store_checked risk_assessments_row_check_level by blast

lemma execute_INSERT:
  "execute store table_check (INSERT r) tbl = Inr tbl'
   \<Longrightarrow> \<exists>r'. store r = Inr r' \<and> tbl' = tbl @ [r']"
  by (auto simp: execute_def split: sum.splits option.splits)

subsection \<open>What one analyze call does\<close>

lemma analyze_risk_rejects:
  "validate_intake req \<noteq> [] \<Longrightarrow>
   analyze_risk an tmpl ctx req st = (Inl (validationError (validate_intake req)), st)"
  by (cases "validate_intake req") (simp_all add: analyze_risk_def)

lemma analyze_risk_accepts:
  assumes "analyze_risk an tmpl ctx req st = (Inr a, st')"
  shows "\<exists>rule. rule_guardrail an (vitals req) (symptoms req) (vulnerability_flags req) = Inr rule
          \<and> a = aggregate tmpl ctx rule (risk_model an req)
                  (case medication_engine an (medications req) (vulnerability_flags req)
                          (symptoms req) of None \<Rightarrow> [] | Some ws \<Rightarrow> ws)
          \<and> execute risk_assessments_store risk_assessments_table_check
                (INSERT (new_assessment ctx a)) (risk_assessments_tbl st)
              = Inr (risk_assessments_tbl st')"
  using assms
  by (auto simp: analyze_risk_def Let_def split: list.splits sum.splits option.splits)

lemma analyze_risk_assessments:
  "risk_assessments_tbl (snd (analyze_risk an tmpl ctx req st)) = risk_assessments_tbl st
   \<or> (\<exists>row. execute risk_assessments_store risk_assessments_table_check (INSERT row)
               (risk_assessments_tbl st)
             = Inr (risk_assessments_tbl (snd (analyze_risk an tmpl ctx req st))))"
  by (auto simp: analyze_risk_def Let_def split: list.splits sum.splits option.splits)

lemma analyze_risk_preserves:
  assumes "list_all (\<lambda>r. \<exists>l \<in> set risk_level. final_risk_level_col r = Some l)
             (risk_assessments_tbl st)"
  shows "list_all (\<lambda>r. \<exists>l \<in> set risk_level. final_risk_level_col r = Some l)
           (risk_assessments_tbl (snd (analyze_risk an tmpl ctx req st)))"
proof -
  from analyze_risk_assessments [of an tmpl ctx req st]
  consider "risk_assessments_tbl (snd (analyze_risk an tmpl ctx req st)) = risk_assessments_tbl st"
    | row where "execute risk_assessments_store risk_assessments_table_check (INSERT row)
                   (risk_assessments_tbl st)
                 = Inr (risk_assessments_tbl (snd (analyze_risk an tmpl ctx req st)))"
    by blast
  then show ?thesis
  proof cases
    case 1
    with assms show ?thesis by simp
  next
    case 2
    show ?thesis
      by (rule execute_preserves [OF _ assms 2]) (rule risk_assessments_store_level)
  qed
qed

lemma serve_preserves:
  "list_all (\<lambda>r. \<exists>l \<in> set risk_level. final_risk_level_col r = Some l) (risk_assessments_tbl st)
   \<Longrightarrow> list_all (\<lambda>r. \<exists>l \<in> set risk_level. final_risk_level_col r = Some l)
         (risk_assessments_tbl (serve requests st))"
proof (induction requests arbitrary: st)
  case Nil
  then show ?case by simp
next
  case (Cons c requests)
  obtain an tmpl ctx req where c: "c = (an, tmpl, ctx, req)" by (cases c) auto
  from Cons.prems have "list_all (\<lambda>r. \<exists>l \<in> set risk_level. final_risk_level_col r = Some l)
           (risk_assessments_tbl (snd (analyze_risk an tmpl ctx req st)))"
    by (rule analyze_risk_preserves)
  with Cons.IH c show ?case by simp
qed

text \<open>The definitions an analyze call unfolds to on a concrete request.\<close>

lemmas eval_service =
  analyze_risk_def Let_def
  execute_cases_def execute_def INSERT_cases_def UPDATE_cases_def cases_store_def cases_row_check_def
  cases_table_check_def cases_defaults_def new_case_def supplied_def enum_ok_def case_status_def
  vitals_store_def vitals_row_check_def vitals_table_check_def new_vitals_def smallint_ok_def between_def
  numeric_def round_to_def risk_assessments_store_def risk_assessments_row_check_def
  risk_assessments_table_check_def new_assessment_def aggregate_def risk_level_def
  final_level_def final_score_def plain_def compose_recommendation_def
  validate_intake_def offending_vitals_def outside_def
  first_call_def service_initial_def

lemma analyze_critical:
  "fst (analyze_risk disagreeing plain first_call intake_critical service_initial)
     = Inr (aggregate plain first_call critical_rule (Some low_model) [])"
  by (simp add: eval_service intake_critical_def disagreeing_def critical_rule_def low_model_def)

lemma analyze_benign:
  "map final_risk_level_col
     (risk_assessments_tbl (serve [(model_absent, plain, first_call, intake_benign)] service_initial))
     = [Some ''low'']"
  by (simp add: eval_service intake_benign_def model_absent_def silent_rule_def)

lemma assessment_session_run:
  "map final_risk_level_col (run_risk_assessments assessment_session []) = [Some ''low'']"
  by (simp add: assessment_session_def assessment_low_def run_risk_assessments_def
        eval_service silent_rule_def)

subsection \<open>Override precedence\<close>

text \<open>
  C1. For every analyze request for which the rule guardrail returns the level
  critical, the assessment returned has the final risk level critical, whatever the
  risk model returns and whether it is available or not, and the assessment row written
  holds \<open>critical\<close>.
\<close>

theorem rule_critical_overrides_model:
  assumes "rule_guardrail an (vitals req) (symptoms req) (vulnerability_flags req) = Inr rule"
    and "rule_risk_level rule = Some critical"
    and "analyze_risk an tmpl ctx req st = (Inr a, st')"
  shows "final_risk_level a = critical
       \<and> (\<exists>r \<in> set (risk_assessments_tbl st').
             ra_id r = Some (assessment_id a) \<and> final_risk_level_col r = Some ''critical'')"
proof -
  from assms(3) analyze_risk_accepts [of an tmpl ctx req st a st'] assms(1)
  have a: "a = aggregate tmpl ctx rule (risk_model an req)
                  (case medication_engine an (medications req) (vulnerability_flags req)
                          (symptoms req) of None \<Rightarrow> [] | Some ws \<Rightarrow> ws)"
    and w: "execute risk_assessments_store risk_assessments_table_check
                (INSERT (new_assessment ctx a)) (risk_assessments_tbl st)
              = Inr (risk_assessments_tbl st')"
    by auto
  from a assms(2) have lvl: "final_risk_level a = critical"
    by (simp add: aggregate_def final_level_def Let_def)
  from execute_INSERT [OF w]
  obtain r' where r': "risk_assessments_store (new_assessment ctx a) = Inr r'"
    and tbl: "risk_assessments_tbl st' = risk_assessments_tbl st @ [r']"
    by blast
  from risk_assessments_store_checked [OF r'] lvl
  have "ra_id r' = Some (assessment_id a) \<and> final_risk_level_col r' = Some ''critical''"
    by (simp add: new_assessment_def)
  with tbl lvl show ?thesis by auto
qed

theorem rule_critical_overrides_model_witness:
  "rule_risk_level critical_rule = Some critical
   \<and> map_option ml_risk_level (risk_model disagreeing intake_critical) = Some low
   \<and> fst (analyze_risk disagreeing plain first_call intake_critical service_initial)
       = Inr (aggregate plain first_call critical_rule (Some low_model) [])
   \<and> final_risk_level (aggregate plain first_call critical_rule (Some low_model) []) = critical"
  using rule_critical_overrides_model
          [of disagreeing intake_critical critical_rule plain first_call service_initial
              "aggregate plain first_call critical_rule (Some low_model) []"
              "snd (analyze_risk disagreeing plain first_call intake_critical service_initial)"]
        analyze_critical
  by (simp add: prod_eq_iff disagreeing_def critical_rule_def low_model_def)

subsection \<open>The final risk level\<close>

text \<open>
  C2. Every stored risk assessment has one final risk level, and it is one of
  \<open>low\<close>, \<open>moderate\<close>, \<open>high\<close>, \<open>critical\<close>, never absent: this holds after
  any sequence of statements on the \<open>risk_assessments\<close> table, and after any sequence
  of analyze calls, whatever the analyzers return, the model being available or not.
\<close>

theorem final_risk_level_declared:
  "(\<forall>r \<in> set (run_risk_assessments stmts []).
       \<exists>l \<in> set risk_level. final_risk_level_col r = Some l)
   \<and> (\<forall>r \<in> set (risk_assessments_tbl (serve requests service_initial)).
       \<exists>l \<in> set risk_level. final_risk_level_col r = Some l)"
proof
  have "list_all (\<lambda>r. \<exists>l \<in> set risk_level. final_risk_level_col r = Some l)
          (run risk_assessments_store risk_assessments_table_check stmts [])"
    by (rule run_preserves) (auto dest: risk_assessments_store_level)
  then show "\<forall>r \<in> set (run_risk_assessments stmts []).
       \<exists>l \<in> set risk_level. final_risk_level_col r = Some l"
    by (simp add: run_risk_assessments_def list_all_iff)
next
  have "list_all (\<lambda>r. \<exists>l \<in> set risk_level. final_risk_level_col r = Some l)
          (risk_assessments_tbl (serve requests service_initial))"
    by (rule serve_preserves) (simp add: service_initial_def)
  then show "\<forall>r \<in> set (risk_assessments_tbl (serve requests service_initial)).
       \<exists>l \<in> set risk_level. final_risk_level_col r = Some l"
    by (simp add: list_all_iff)
qed

theorem final_risk_level_declared_witness:
  "map final_risk_level_col (run_risk_assessments assessment_session []) = [Some ''low'']
   \<and> risk_model model_absent intake_benign = None
   \<and> map final_risk_level_col
        (risk_assessments_tbl (serve [(model_absent, plain, first_call, intake_benign)]
           service_initial)) = [Some ''low'']
   \<and> (\<exists>l \<in> set risk_level. hd (map final_risk_level_col
        (risk_assessments_tbl (serve [(model_absent, plain, first_call, intake_benign)]
           service_initial))) = Some l)"
  using final_risk_level_declared
          [of assessment_session "[(model_absent, plain, first_call, intake_benign)]"]
        analyze_benign assessment_session_run
  by (simp add: model_absent_def risk_level_def)

subsection \<open>Validation comes first\<close>

lemma offending_vitals_iff:
  "offending_vitals v \<noteq> [] \<longleftrightarrow>
     outside (systolic_bp v) 40 350 \<or> outside (diastolic_bp v) 20 250
   \<or> outside (heart_rate v) 20 350 \<or> outside (respiratory_rate v) 4 80
   \<or> outside (spo2 v) 50 100 \<or> outside (temperature v) 30 45
   \<or> (\<exists>g. blood_glucose_mgdl v = Some g \<and> outside g 20 1000)
   \<or> (\<exists>g. gcs_score v = Some g \<and> outside g 3 15)"
  by (cases "blood_glucose_mgdl v"; cases "gcs_score v") (simp_all add: offending_vitals_def)

text \<open>
  C3. An intake whose vitals hold a value outside its declared range (systolic
  pressure 40 to 350, diastolic pressure 20 to 250, heart rate 20 to 350, respiratory
  rate 4 to 80, SpO2 50 to 100, temperature 30 to 45, blood glucose 20 to 1000, GCS 3
  to 15) fails validation: the answer is a validation error that names fields, and
  the state of the service is as before, no analyzer started and no row written.
\<close>

theorem out_of_range_vitals_fail_validation:
  assumes "systolic_bp (vitals req) < 40 \<or> 350 < systolic_bp (vitals req)
         \<or> diastolic_bp (vitals req) < 20 \<or> 250 < diastolic_bp (vitals req)
         \<or> heart_rate (vitals req) < 20 \<or> 350 < heart_rate (vitals req)
         \<or> respiratory_rate (vitals req) < 4 \<or> 80 < respiratory_rate (vitals req)
         \<or> spo2 (vitals req) < 50 \<or> 100 < spo2 (vitals req)
         \<or> temperature (vitals req) < 30 \<or> 45 < temperature (vitals req)
         \<or> (\<exists>g. blood_glucose_mgdl (vitals req) = Some g \<and> (g < 20 \<or> 1000 < g))
         \<or> (\<exists>g. gcs_score (vitals req) = Some g \<and> (g < 3 \<or> 15 < g))"
  shows "\<exists>fields. fields \<noteq> []
           \<and> analyze_risk an tmpl ctx req st = (Inl (validationError fields), st)"
proof -
  from assms have "offending_vitals (vitals req) \<noteq> []"
    unfolding offending_vitals_iff outside_def by blast
  then have "validate_intake req \<noteq> []"
    by (simp add: validate_intake_def)
  then show ?thesis
    using analyze_risk_rejects by blast
qed

theorem out_of_range_vitals_witness:
  "350 < systolic_bp (vitals intake_out_of_range)
   \<and> analyze_risk disagreeing plain first_call intake_out_of_range service_initial
       = (Inl (validationError [''systolic_bp'']), service_initial)"
  using out_of_range_vitals_fail_validation
          [of intake_out_of_range disagreeing plain first_call service_initial]
  by (simp add: intake_out_of_range_def intake_critical_def analyze_risk_def
        validate_intake_def offending_vitals_def outside_def)

end
